theory Spec2Isabelle
  imports Complex_Main
begin

section \<open>Numeric values of a pandas column\<close>

text \<open>
  Prices and indicator values are Python/numpy floats. They are modelled as exact reals
  extended with the three non-finite values that the indicator pipeline can produce
  (a warm-up bar is NaN, a division by a zero average is an infinity or NaN). Rounding
  and the sign of zero are not modelled.
\<close>

datatype fl = Fin real | PInf | NInf | NaN

fun fl_neg :: "fl \<Rightarrow> fl" where
  "fl_neg (Fin x) = Fin (- x)"
| "fl_neg PInf = NInf"
| "fl_neg NInf = PInf"
| "fl_neg NaN = NaN"

fun fl_add :: "fl \<Rightarrow> fl \<Rightarrow> fl" where
  "fl_add (Fin x) (Fin y) = Fin (x + y)"
| "fl_add NaN _ = NaN"
| "fl_add _ NaN = NaN"
| "fl_add PInf NInf = NaN"
| "fl_add NInf PInf = NaN"
| "fl_add PInf _ = PInf"
| "fl_add _ PInf = PInf"
| "fl_add NInf _ = NInf"
| "fl_add _ NInf = NInf"

definition fl_sub :: "fl \<Rightarrow> fl \<Rightarrow> fl" where
  "fl_sub a b = fl_add a (fl_neg b)"

text \<open>numpy division: a finite value over zero is an infinity, zero over zero is NaN.\<close>

fun fl_div :: "fl \<Rightarrow> fl \<Rightarrow> fl" where
  "fl_div (Fin x) (Fin y) =
     (if y \<noteq> 0 then Fin (x / y)
      else if 0 < x then PInf else if x < 0 then NInf else NaN)"
| "fl_div NaN _ = NaN"
| "fl_div _ NaN = NaN"
| "fl_div (Fin x) PInf = Fin 0"
| "fl_div (Fin x) NInf = Fin 0"
| "fl_div PInf (Fin y) = (if 0 \<le> y then PInf else NInf)"
| "fl_div NInf (Fin y) = (if 0 \<le> y then NInf else PInf)"
| "fl_div _ _ = NaN"

text \<open>Comparison \<open>a < b\<close>; every comparison with NaN is False.\<close>

fun fl_lt :: "fl \<Rightarrow> fl \<Rightarrow> bool" where
  "fl_lt (Fin x) (Fin y) = (x < y)"
| "fl_lt NaN _ = False"
| "fl_lt _ NaN = False"
| "fl_lt NInf NInf = False"
| "fl_lt NInf _ = True"
| "fl_lt _ NInf = False"
| "fl_lt PInf _ = False"
| "fl_lt _ PInf = True"

fun is_Fin :: "fl \<Rightarrow> bool" where
  "is_Fin (Fin _) = True"
| "is_Fin _ = False"

fun fin_val :: "fl \<Rightarrow> real" where
  "fin_val (Fin x) = x"
| "fin_val _ = 0"

section \<open>The pandas operations used by the indicators\<close>

text \<open>\<open>Series.diff()\<close>: the first entry is NaN, entry i is x[i] - x[i-1].\<close>

definition diff :: "real list \<Rightarrow> fl list" where
  "diff xs = (case xs of [] \<Rightarrow> [] | _ # t \<Rightarrow> NaN # map2 (\<lambda>b a. Fin (b - a)) t xs)"

text \<open>\<open>Series.where(cond, other)\<close>: keep the entry where cond holds, else other.\<close>

definition where_else :: "(fl \<Rightarrow> bool) \<Rightarrow> fl \<Rightarrow> fl list \<Rightarrow> fl list" where
  "where_else cond other xs = map (\<lambda>d. if cond d then d else other) xs"

text \<open>
  \<open>Series.rolling(window=w).mean()\<close>: bars before the window is full are NaN; afterwards
  the mean of the last w entries, NaN when one of them is not a finite number.
\<close>

definition window_mean :: "fl list \<Rightarrow> fl" where
  "window_mean ws =
     (if list_all is_Fin ws then Fin (sum_list (map fin_val ws) / real (length ws)) else NaN)"

definition rolling_mean :: "nat \<Rightarrow> fl list \<Rightarrow> fl list" where
  "rolling_mean w xs =
     map (\<lambda>i. if i + 1 < w then NaN else window_mean (take w (drop (i + 1 - w) xs)))
         [0..<length xs]"

text \<open>
  \<open>Series.ewm(span=n, adjust=False).mean()\<close>: ema[0] = x[0],
  ema[i] = a * x[i] + (1 - a) * ema[i-1] with a = 2 / (n + 1).
\<close>

fun ewm_from :: "real \<Rightarrow> real \<Rightarrow> real list \<Rightarrow> real list" where
  "ewm_from a prev [] = []"
| "ewm_from a prev (x # xs) = (a * x + (1 - a) * prev) # ewm_from a (a * x + (1 - a) * prev) xs"

definition ewm_mean :: "nat \<Rightarrow> real list \<Rightarrow> real list" where
  "ewm_mean n xs =
     (case xs of [] \<Rightarrow> [] | x # t \<Rightarrow> x # ewm_from (2 / (real n + 1)) x t)"

text \<open>\<open>df.loc[mask, col] = v\<close>: overwrite the entries selected by the mask.\<close>

definition loc_set :: "bool list \<Rightarrow> 'a \<Rightarrow> 'a list \<Rightarrow> 'a list" where
  "loc_set sel v col = map2 (\<lambda>m c. if m then v else c) sel col"

text \<open>\<open>df.iloc[-1]\<close> on one column; IndexError on an empty column is None.\<close>

definition iloc_last :: "'a list \<Rightarrow> 'a option" where
  "iloc_last xs = (if xs = [] then None else Some (last xs))"

text \<open>Python's \<open>max\<close> and \<open>min\<close> of a list; ValueError on an empty list is None.\<close>

definition py_max :: "real list \<Rightarrow> real option" where
  "py_max xs = (case xs of [] \<Rightarrow> None | x # t \<Rightarrow> Some (fold max t x))"

definition py_min :: "real list \<Rightarrow> real option" where
  "py_min xs = (case xs of [] \<Rightarrow> None | x # t \<Rightarrow> Some (fold min t x))"

section \<open>TechnicalAnalysis\<close>

record bar =
  Open :: real
  High :: real
  Low :: real
  Close :: real
  Volume :: real

text \<open>\<open>self.data\<close>: the bar series, or None before any data was set.\<close>

type_synonym ta = "bar list option"

subsection \<open>calculate_rsi\<close>

definition rsi_gain :: "real list \<Rightarrow> fl list" where
  "rsi_gain closes = where_else (\<lambda>d. fl_lt (Fin 0) d) (Fin 0) (diff closes)"

definition rsi_loss :: "real list \<Rightarrow> fl list" where
  "rsi_loss closes = map fl_neg (where_else (\<lambda>d. fl_lt d (Fin 0)) (Fin 0) (diff closes))"

definition rsi_avg_gain :: "nat \<Rightarrow> real list \<Rightarrow> fl list" where
  "rsi_avg_gain period closes = rolling_mean period (rsi_gain closes)"

definition rsi_avg_loss :: "nat \<Rightarrow> real list \<Rightarrow> fl list" where
  "rsi_avg_loss period closes = rolling_mean period (rsi_loss closes)"

definition rsi_of_rs :: "fl \<Rightarrow> fl" where
  "rsi_of_rs rs = fl_sub (Fin 100) (fl_div (Fin 100) (fl_add (Fin 1) rs))"

text \<open>The body of the \<open>try\<close> block, on the Close column.\<close>

definition rsi_values :: "nat \<Rightarrow> real list \<Rightarrow> fl list" where
  "rsi_values period closes =
     (let avg_gain = rsi_avg_gain period closes;
          avg_loss = rsi_avg_loss period closes;
          rs = map2 fl_div avg_gain avg_loss
      in map rsi_of_rs rs)"

definition calculate_rsi :: "ta \<Rightarrow> nat \<Rightarrow> fl list option" where
  "calculate_rsi data period =
     (case data of
        None \<Rightarrow> None
      | Some d \<Rightarrow>
          if length d < period + 1 then None
          else Some (rsi_values period (map Close d)))"

subsection \<open>calculate_macd\<close>

definition macd_values ::
  "nat \<Rightarrow> nat \<Rightarrow> nat \<Rightarrow> real list \<Rightarrow> real list \<times> real list \<times> real list" where
  "macd_values fast_period slow_period signal_period closes =
     (let fast_ema = ewm_mean fast_period closes;
          slow_ema = ewm_mean slow_period closes;
          macd_line = map2 (\<lambda>f s. f - s) fast_ema slow_ema;
          signal_line = ewm_mean signal_period macd_line;
          histogram = map2 (\<lambda>m s. m - s) macd_line signal_line
      in (macd_line, signal_line, histogram))"

definition calculate_macd ::
  "ta \<Rightarrow> nat \<Rightarrow> nat \<Rightarrow> nat \<Rightarrow> (real list \<times> real list \<times> real list) option" where
  "calculate_macd data fast_period slow_period signal_period =
     (case data of
        None \<Rightarrow> None
      | Some d \<Rightarrow>
          if length d < slow_period + signal_period then None
          else Some (macd_values fast_period slow_period signal_period (map Close d)))"

subsection \<open>calculate_moving_averages\<close>

text \<open>
  The dictionary keyed \<open>MA<period>\<close> is an association list keyed by the period, in the
  order of \<open>periods\<close>. \<open>max(periods)\<close> raises on an empty list; the only caller,
  \<open>generate_signals\<close>, passes the default list and turns any exception into None.
\<close>

definition ma_values :: "nat list \<Rightarrow> real list \<Rightarrow> (nat \<times> fl list) list" where
  "ma_values periods closes =
     map (\<lambda>period. (period, rolling_mean period (map Fin closes))) periods"

definition calculate_moving_averages :: "ta \<Rightarrow> nat list \<Rightarrow> (nat \<times> fl list) list option" where
  "calculate_moving_averages data periods =
     (case data of
        None \<Rightarrow> None
      | Some d \<Rightarrow>
          (case periods of
             [] \<Rightarrow> None
           | p # ps \<Rightarrow>
               if length d < fold max ps p then None
               else Some (ma_values periods (map Close d))))"

subsection \<open>identify_support_resistance\<close>

definition is_local_min :: "real list \<Rightarrow> nat \<Rightarrow> nat \<Rightarrow> bool" where
  "is_local_min lows window i =
     (list_all (\<lambda>j. lows ! i \<le> lows ! (i - j)) [1..<window + 1] \<and>
      list_all (\<lambda>j. lows ! i \<le> lows ! (i + j)) [1..<window + 1])"

definition is_local_max :: "real list \<Rightarrow> nat \<Rightarrow> nat \<Rightarrow> bool" where
  "is_local_max highs window i =
     (list_all (\<lambda>j. highs ! i \<ge> highs ! (i - j)) [1..<window + 1] \<and>
      list_all (\<lambda>j. highs ! i \<ge> highs ! (i + j)) [1..<window + 1])"

definition identify_support_resistance :: "ta \<Rightarrow> nat \<Rightarrow> (real list \<times> real list) option" where
  "identify_support_resistance data window =
     (case data of
        None \<Rightarrow> None
      | Some d \<Rightarrow>
          if length d < window * 2 then None
          else
            let highs = map High d;
                lows = map Low d;
                support_indices =
                  filter (is_local_min lows window) [window..<length lows - window];
                resistance_indices =
                  filter (is_local_max highs window) [window..<length highs - window]
            in Some (map (\<lambda>i. lows ! i) support_indices,
                     map (\<lambda>i. highs ! i) resistance_indices))"

subsection \<open>generate_signals\<close>

text \<open>
  The signals DataFrame, column by column. \<open>MA_Cross_Signal\<close> exists only when both the
  MA20 and the MA50 column exist, so it is optional; the number of rows is the number of
  bars.
\<close>

record signals =
  sg_Close :: "real list"
  sg_RSI :: "fl list"
  sg_MACD :: "real list"
  sg_MACD_Signal :: "real list"
  sg_MACD_Histogram :: "real list"
  sg_MA :: "(nat \<times> fl list) list"
  sg_RSI_Signal :: "int list"
  sg_MACD_Cross_Signal :: "int list"
  sg_MA_Cross_Signal :: "int list option"
  sg_Signal :: "real list"

definition rsi_signal_col :: "fl list \<Rightarrow> int list" where
  "rsi_signal_col rsi =
     loc_set (map (\<lambda>r. fl_lt (Fin 70) r) rsi) (- 1)
       (loc_set (map (\<lambda>r. fl_lt r (Fin 30)) rsi) 1 (replicate (length rsi) 0))"

definition macd_cross_signal_col :: "real list \<Rightarrow> real list \<Rightarrow> int list" where
  "macd_cross_signal_col macd sig =
     loc_set (map2 (\<lambda>m s. m < s) macd sig) (- 1)
       (loc_set (map2 (\<lambda>m s. m > s) macd sig) 1 (replicate (length macd) 0))"

definition ma_cross_signal_col :: "fl list \<Rightarrow> fl list \<Rightarrow> int list" where
  "ma_cross_signal_col ma20 ma50 =
     loc_set (map2 (\<lambda>a b. fl_lt a b) ma20 ma50) (- 1)
       (loc_set (map2 (\<lambda>a b. fl_lt b a) ma20 ma50) 1 (replicate (length ma20) 0))"

text \<open>\<open>signals['Signal'] += col\<close>, row by row.\<close>

definition add_col :: "int list \<Rightarrow> int list \<Rightarrow> int list" where
  "add_col acc col = map2 (\<lambda>a c. a + c) acc col"

text \<open>The DataFrame built once the three indicators were computed.\<close>

definition build_signals ::
  "bar list \<Rightarrow> fl list \<Rightarrow> real list \<times> real list \<times> real list \<Rightarrow> (nat \<times> fl list) list \<Rightarrow>
   signals" where
  "build_signals d rsi macd ma_dict =
     (case macd of (macd_line, signal_line, histogram) \<Rightarrow>
        let rsi_sig = rsi_signal_col rsi;
            macd_sig = macd_cross_signal_col macd_line signal_line;
            ma_sig =
              (case (map_of ma_dict 20, map_of ma_dict 50) of
                 (Some ma20, Some ma50) \<Rightarrow> Some (ma_cross_signal_col ma20 ma50)
               | _ \<Rightarrow> None);
            s0 = replicate (length d) 0;
            s1 = add_col s0 rsi_sig;
            s2 = add_col s1 macd_sig;
            s3 = (case ma_sig of Some c \<Rightarrow> add_col s2 c | None \<Rightarrow> s2);
            num_indicators = (1::nat) + 1 + (case ma_sig of Some c \<Rightarrow> 1 | None \<Rightarrow> 0)
        in \<lparr> sg_Close = map Close d, sg_RSI = rsi, sg_MACD = macd_line,
             sg_MACD_Signal = signal_line, sg_MACD_Histogram = histogram,
             sg_MA = ma_dict, sg_RSI_Signal = rsi_sig,
             sg_MACD_Cross_Signal = macd_sig, sg_MA_Cross_Signal = ma_sig,
             sg_Signal =
               (if num_indicators > 0
                then map (\<lambda>s. real_of_int s / real num_indicators) s3
                else map real_of_int s3) \<rparr>)"

definition generate_signals :: "ta \<Rightarrow> signals option" where
  "generate_signals data =
     (case data of
        None \<Rightarrow> None
      | Some d \<Rightarrow>
          (case (calculate_rsi data 14, calculate_macd data 12 26 9,
                 calculate_moving_averages data [20, 50, 200]) of
             (Some rsi, Some macd, Some ma_dict) \<Rightarrow> Some (build_signals d rsi macd ma_dict)
           | _ \<Rightarrow> None))"

subsection \<open>get_signal_summary\<close>

datatype signal_type = BUY | SELL | NEUTRAL

record levels =
  support_levels :: "real list"
  resistance_levels :: "real list"
  closest_support :: "real option"
  closest_resistance :: "real option"

text \<open>
  The summary dictionary. The four support/resistance keys are set together or not at
  all, so they form one optional group; a missing key and a None value both mean that
  the closest level is absent.
\<close>

record summary =
  sm_price :: real
  sm_signal_type :: signal_type
  sm_signal_strength :: real
  sm_rsi :: fl
  sm_macd :: real
  sm_macd_signal :: real
  sm_macd_histogram :: real
  sm_ma :: "(nat \<times> fl) list"
  sm_levels :: "levels option"

definition signals_empty :: "signals \<Rightarrow> bool" where
  "signals_empty s = (sg_Close s = [])"

definition classify_signal :: "real \<Rightarrow> signal_type" where
  "classify_signal signal_value =
     (if signal_value > 0.2 then BUY else if signal_value < - 0.2 then SELL else NEUTRAL)"

definition find_levels :: "ta \<Rightarrow> real \<Rightarrow> levels option" where
  "find_levels data current_price =
     (case identify_support_resistance data 10 of
        None \<Rightarrow> None
      | Some (sups, ress) \<Rightarrow>
          if sups \<noteq> [] \<and> ress \<noteq> [] then
            let supports_below = filter (\<lambda>level. level < current_price) sups;
                resistances_above = filter (\<lambda>level. level > current_price) ress
            in Some \<lparr> support_levels = sups, resistance_levels = ress,
                      closest_support = py_max supports_below,
                      closest_resistance = py_min resistances_above \<rparr>
          else None)"

text \<open>
  A column too short to have a last row raises inside the \<open>try\<close> block and the
  function returns None.
\<close>

definition get_signal_summary :: "ta \<Rightarrow> signals option \<Rightarrow> summary option" where
  "get_signal_summary data signals_arg =
     (case data of
        None \<Rightarrow> None
      | Some d \<Rightarrow>
          (case (case signals_arg of None \<Rightarrow> generate_signals data | Some s \<Rightarrow> Some s) of
             None \<Rightarrow> None
           | Some s \<Rightarrow>
               if signals_empty s then None
               else
                 (case (iloc_last (sg_Signal s), iloc_last (sg_Close s), iloc_last (sg_RSI s),
                        iloc_last (sg_MACD s), iloc_last (sg_MACD_Signal s),
                        iloc_last (sg_MACD_Histogram s),
                        those (map (\<lambda>(p, col). map_option (Pair p) (iloc_last col)) (sg_MA s))) of
                    (Some signal_value, Some close, Some rsi, Some macd, Some macd_signal,
                     Some macd_histogram, Some mas) \<Rightarrow>
                      Some \<lparr> sm_price = close,
                             sm_signal_type = classify_signal signal_value,
                             sm_signal_strength = \<bar>signal_value\<bar>,
                             sm_rsi = rsi, sm_macd = macd, sm_macd_signal = macd_signal,
                             sm_macd_histogram = macd_histogram, sm_ma = mas,
                             sm_levels = find_levels data close \<rparr>
                  | _ \<Rightarrow> None)))"

section \<open>NotificationSystem\<close>

datatype ntype = PRICE | SIGNAL | NEWS | EOD

record article =
  a_title :: string
  a_source :: string
  a_url :: string
  a_impact :: real

text \<open>
  The \<open>data\<close> dictionary of a notification. The timestamp, the formatted message text
  and the chart file are produced from the clock and by collaborators and are left out.
\<close>

datatype ndata =
    PriceData (current_price: real) (previous_price: real) (price_change: real)
              (percent_change: real)
  | SignalData summary
  | NewsData article
  | EodData nat

record notification =
  n_type :: ntype
  n_title :: string
  n_data :: ndata

record notification_system =
  check_interval :: nat
  price_change_threshold :: real
  rsi_overbought :: real
  rsi_oversold :: real
  last_price :: "real option"
  last_signal :: "signal_type option"
  last_news_ids :: "string set"
  notifications_history :: "notification list"

text \<open>The history file: absent, unreadable as JSON, or a stored list.\<close>

datatype history_file = Missing | Corrupt | Stored "notification list"

text \<open>
  What happens to one write of the history file: it succeeds, opening the file fails
  (the file is left as it was), or serialising fails after the file was truncated.
\<close>

datatype write_outcome = WriteOk | OpenFails | DumpFails

datatype py_error = ZeroDivisionError

subsection \<open>Constructor and history file\<close>

definition load_notification_history :: "history_file \<Rightarrow> notification list \<Rightarrow> notification list" where
  "load_notification_history file current =
     (case file of Missing \<Rightarrow> current | Corrupt \<Rightarrow> [] | Stored h \<Rightarrow> h)"

definition init_notification_system ::
  "nat \<Rightarrow> real \<Rightarrow> real \<Rightarrow> real \<Rightarrow> history_file \<Rightarrow> notification_system" where
  "init_notification_system interval threshold overbought oversold file =
     \<lparr> check_interval = interval, price_change_threshold = threshold,
       rsi_overbought = overbought, rsi_oversold = oversold,
       last_price = None, last_signal = None, last_news_ids = {},
       notifications_history = load_notification_history file [] \<rparr>"

text \<open>\<open>xs[-100:]\<close>\<close>

definition last_100 :: "'a list \<Rightarrow> 'a list" where
  "last_100 xs = drop (length xs - 100) xs"

definition save_notification_history ::
  "notification_system \<Rightarrow> history_file \<Rightarrow> write_outcome \<Rightarrow> history_file" where
  "save_notification_history ns file outcome =
     (case outcome of
        WriteOk \<Rightarrow> Stored (last_100 (notifications_history ns))
      | OpenFails \<Rightarrow> file
      | DumpFails \<Rightarrow> Corrupt)"

subsection \<open>add_notification\<close>

definition add_notification ::
  "notification_system \<times> history_file \<Rightarrow> notification option \<times> write_outcome \<Rightarrow>
   bool \<times> notification_system \<times> history_file" where
  "add_notification st arg =
     (case st of (ns, file) \<Rightarrow>
      case arg of (notification, outcome) \<Rightarrow>
        (case notification of
           None \<Rightarrow> (False, ns, file)
         | Some n \<Rightarrow>
             let ns' = ns\<lparr>notifications_history := notifications_history ns @ [n]\<rparr>
             in (True, ns', save_notification_history ns' file outcome)))"

subsection \<open>check_price_movement\<close>

text \<open>
  The argument is what \<open>gold_monitor.get_current_price()\<close> returned. Dividing by a
  baseline of zero raises ZeroDivisionError out of the function, with the state as it
  was.
\<close>

definition check_price_movement ::
  "notification_system \<Rightarrow> real option \<Rightarrow> (py_error + notification option) \<times> notification_system" where
  "check_price_movement ns price =
     (case price of
        None \<Rightarrow> (Inr None, ns)
      | Some current \<Rightarrow>
          (case last_price ns of
             None \<Rightarrow> (Inr None, ns\<lparr>last_price := Some current\<rparr>)
           | Some previous \<Rightarrow>
               if previous = 0 then (Inl ZeroDivisionError, ns)
               else
                 let change = current - previous;
                     percent = (change / previous) * 100
                 in if \<bar>percent\<bar> \<ge> price_change_threshold ns then
                      (Inr (Some \<lparr> n_type = PRICE,
                                   n_title = (if change > 0 then ''Gold Price Up''
                                              else ''Gold Price Down''),
                                   n_data = PriceData current previous change percent \<rparr>),
                       ns\<lparr>last_price := Some current\<rparr>)
                    else (Inr None, ns\<lparr>last_price := Some current\<rparr>)))"

subsection \<open>check_technical_signals\<close>

definition signal_title :: "signal_type \<Rightarrow> string" where
  "signal_title t =
     (case t of BUY \<Rightarrow> ''Gold Trading Signal: BUY''
      | SELL \<Rightarrow> ''Gold Trading Signal: SELL''
      | NEUTRAL \<Rightarrow> ''Gold Trading Signal: NEUTRAL'')"

text \<open>The part of \<open>check_technical_signals\<close> that runs once a summary was obtained.\<close>

definition signal_transition ::
  "notification_system \<Rightarrow> summary \<Rightarrow> notification option \<times> notification_system" where
  "signal_transition ns summ =
     (let signal_type = sm_signal_type summ in
      case last_signal ns of
        None \<Rightarrow> (None, ns\<lparr>last_signal := Some signal_type\<rparr>)
      | Some previous \<Rightarrow>
          if signal_type \<noteq> previous \<and> signal_type \<noteq> NEUTRAL then
            (Some \<lparr> n_type = SIGNAL, n_title = signal_title signal_type,
                    n_data = SignalData summ \<rparr>,
             ns\<lparr>last_signal := Some signal_type\<rparr>)
          else (None, ns\<lparr>last_signal := Some signal_type\<rparr>))"

definition check_technical_signals ::
  "notification_system \<Rightarrow> ta \<Rightarrow> notification option \<times> notification_system" where
  "check_technical_signals ns technical_analysis =
     (case generate_signals technical_analysis of
        None \<Rightarrow> (None, ns)
      | Some sigs \<Rightarrow>
          if signals_empty sigs then (None, ns)
          else
            (case get_signal_summary technical_analysis (Some sigs) of
               None \<Rightarrow> (None, ns)
             | Some summ \<Rightarrow> signal_transition ns summ))"

subsection \<open>check_news\<close>

text \<open>\<open>NewsMonitor.get_high_impact_news\<close> on the news that was just fetched.\<close>

definition get_high_impact_news :: "article list \<Rightarrow> real \<Rightarrow> article list" where
  "get_high_impact_news news_data threshold =
     (if news_data = [] then [] else filter (\<lambda>a. a_impact a \<ge> threshold) news_data)"

definition news_id :: "article \<Rightarrow> string" where
  "news_id a = a_title a @ ''|'' @ a_source a"

definition news_notification :: "article \<Rightarrow> notification" where
  "news_notification a =
     \<lparr> n_type = NEWS, n_title = ''Gold News: '' @ a_title a, n_data = NewsData a \<rparr>"

text \<open>The argument is what \<open>news_monitor.fetch_all_news()\<close> returned.\<close>

definition check_news ::
  "notification_system \<Rightarrow> article list option \<Rightarrow> notification list \<times> notification_system" where
  "check_news ns fetched =
     (case fetched of
        None \<Rightarrow> ([], ns)
      | Some news \<Rightarrow>
          if news = [] then ([], ns)
          else
            let high_impact = get_high_impact_news news 0.7 in
            if high_impact = [] then ([], ns)
            else
              let current_news_ids = set (map news_id high_impact) in
              if last_news_ids ns = {} then ([], ns\<lparr>last_news_ids := current_news_ids\<rparr>)
              else
                let new_news_ids = current_news_ids - last_news_ids ns in
                if new_news_ids = {} then ([], ns)
                else
                  (map news_notification
                     (filter (\<lambda>a. news_id a \<in> new_news_ids) high_impact),
                   ns\<lparr>last_news_ids := current_news_ids\<rparr>))"

subsection \<open>Successive calls on one instance\<close>

fun run_checks :: "('s \<Rightarrow> 'i \<Rightarrow> 'r \<times> 's) \<Rightarrow> 's \<Rightarrow> 'i list \<Rightarrow> 'r list \<times> 's" where
  "run_checks f st [] = ([], st)"
| "run_checks f st (x # xs) =
     (case f st x of (r, st') \<Rightarrow>
        (case run_checks f st' xs of (rs, st'') \<Rightarrow> (r # rs, st'')))"

section \<open>The end-of-day check of the monitoring loop\<close>

text \<open>
  \<open>datetime.now()\<close> of one loop iteration: the calendar date as a day number, the
  hour and the minute.
\<close>

record datetime =
  dt_date :: nat
  dt_hour :: nat
  dt_minute :: nat

text \<open>
  One iteration of \<open>while True\<close>, as far as the end-of-day report is concerned. The
  iteration reaches the end-of-day check only when \<open>fetch_live_data\<close> returned data and
  none of the earlier checks of the cycle raised (an exception ends the cycle);
  \<open>p_report\<close> is the report \<open>generate_eod_report\<close> would return, None when it raises.
  A returned report is a non-empty dictionary, so \<open>if eod_report\<close> holds, and
  \<open>add_notification\<close> and \<open>send_notification\<close> catch their own failures, so the
  date mark is set whenever a report was built.
\<close>

record poll =
  p_now :: datetime
  p_reaches_check :: bool
  p_report :: "notification option"

definition eod_due :: "nat \<Rightarrow> nat \<Rightarrow> datetime \<Rightarrow> nat option \<Rightarrow> bool" where
  "eod_due eod_hour eod_minute current_time last_eod_report_date =
     (dt_hour current_time = eod_hour \<and> dt_minute current_time \<ge> eod_minute \<and>
      (case last_eod_report_date of None \<Rightarrow> True | Some d \<Rightarrow> dt_date current_time > d))"

text \<open>Returns the report that was sent in this iteration, and the new date mark.\<close>

definition loop_iteration ::
  "nat \<Rightarrow> nat \<Rightarrow> nat option \<Rightarrow> poll \<Rightarrow> notification option \<times> nat option" where
  "loop_iteration eod_hour eod_minute last_eod_report_date p =
     (if p_reaches_check p \<and> eod_due eod_hour eod_minute (p_now p) last_eod_report_date then
        (case p_report p of
           None \<Rightarrow> (None, last_eod_report_date)
         | Some eod_report \<Rightarrow> (Some eod_report, Some (dt_date (p_now p))))
      else (None, last_eod_report_date))"

text \<open>
  The loop over a finite sequence of polls, starting with no date mark: for each poll,
  whether an end-of-day report was sent.
\<close>

definition run_monitoring_loop :: "nat \<Rightarrow> nat \<Rightarrow> poll list \<Rightarrow> notification option list \<times> nat option" where
  "run_monitoring_loop eod_hour eod_minute polls =
     run_checks (loop_iteration eod_hour eod_minute) None polls"

text \<open>The dates on which a report was sent, in order.\<close>

definition report_dates :: "nat \<Rightarrow> nat \<Rightarrow> poll list \<Rightarrow> nat list" where
  "report_dates eod_hour eod_minute polls =
     map (\<lambda>(p, r). dt_date (p_now p))
       (filter (\<lambda>(p, r). r \<noteq> None) (zip polls (fst (run_monitoring_loop eod_hour eod_minute polls))))"

section \<open>Auxiliary definitions for the statements\<close>

text \<open>Number of entries that can be read back from the history file.\<close>

fun file_entries :: "history_file \<Rightarrow> nat" where
  "file_entries Missing = 0"
| "file_entries Corrupt = 0"
| "file_entries (Stored h) = length h"

text \<open>The notifications of a sequence of \<open>add_notification\<close> calls that are not None.\<close>

definition added :: "(notification option \<times> write_outcome) list \<Rightarrow> notification list" where
  "added calls = concat (map (\<lambda>(n, w). case n of None \<Rightarrow> [] | Some x \<Rightarrow> [x]) calls)"

text \<open>
  The dates of the polls at which a report was sent, for a loop started with any date
  mark.
\<close>

definition sent_dates :: "nat \<Rightarrow> nat \<Rightarrow> nat option \<Rightarrow> poll list \<Rightarrow> nat list" where
  "sent_dates h m mark polls =
     map (\<lambda>(p, r). dt_date (p_now p))
       (filter (\<lambda>(p, r). r \<noteq> None)
          (zip polls (fst (run_checks (loop_iteration h m) mark polls))))"

fun above_mark :: "nat option \<Rightarrow> nat \<Rightarrow> bool" where
  "above_mark None d = True"
| "above_mark (Some k) d = (k < d)"

subsection \<open>The sub-signal of one row\<close>

text \<open>
  What the \<open>loc\<close> assignments of \<open>generate_signals\<close> leave in one row of the three
  sub-signal columns, and the moving-average column of one period.
\<close>

definition rsi_vote :: "fl \<Rightarrow> int" where
  "rsi_vote r = (if fl_lt (Fin 70) r then - 1 else if fl_lt r (Fin 30) then 1 else 0)"

definition macd_vote :: "real \<Rightarrow> real \<Rightarrow> int" where
  "macd_vote m s = (if m < s then - 1 else if m > s then 1 else 0)"

definition ma_vote :: "fl \<Rightarrow> fl \<Rightarrow> int" where
  "ma_vote a b = (if fl_lt a b then - 1 else if fl_lt b a then 1 else 0)"

definition ma_col :: "nat \<Rightarrow> bar list \<Rightarrow> fl list" where
  "ma_col period d = rolling_mean period (map Fin (map Close d))"

text \<open>A column entry that is a number and not negative.\<close>

definition nonneg_fin :: "fl \<Rightarrow> bool" where
  "nonneg_fin x = (case x of Fin g \<Rightarrow> 0 \<le> g | _ \<Rightarrow> False)"

subsection \<open>The composite signal as the specification words it\<close>

text \<open>
  The sum of the available sub-signals divided by their number, no value when none is
  available; a sub-signal is available at a bar when its indicator inputs are numbers
  there. The sub-signal values themselves are taken from the columns of the code.
\<close>

definition available :: "int option list \<Rightarrow> int list" where
  "available subs = concat (map (\<lambda>v. case v of None \<Rightarrow> [] | Some x \<Rightarrow> [x]) subs)"

definition spec_composite :: "int option list \<Rightarrow> real option" where
  "spec_composite subs =
     (if available subs = [] then None
      else Some (real_of_int (sum_list (available subs)) / real (length (available subs))))"

definition spec_signal_at :: "signals \<Rightarrow> nat \<Rightarrow> real option" where
  "spec_signal_at s i =
     spec_composite
       [if sg_RSI s ! i = NaN then None else Some (sg_RSI_Signal s ! i),
        Some (sg_MACD_Cross_Signal s ! i),
        (case (map_of (sg_MA s) 20, map_of (sg_MA s) 50, sg_MA_Cross_Signal s) of
           (Some ma20, Some ma50, Some c) \<Rightarrow>
             if ma20 ! i = NaN \<or> ma50 ! i = NaN then None else Some (c ! i)
         | _ \<Rightarrow> None)]"

subsection \<open>The signal type a call observes\<close>

text \<open>
  The \<open>signal_type\<close> of the summary that \<open>check_technical_signals\<close> obtains from a
  series, None when it returns before obtaining one.
\<close>

definition observed_signal_type :: "ta \<Rightarrow> signal_type option" where
  "observed_signal_type technical_analysis =
     (case generate_signals technical_analysis of
        None \<Rightarrow> None
      | Some sigs \<Rightarrow>
          if signals_empty sigs then None
          else map_option sm_signal_type (get_signal_summary technical_analysis (Some sigs)))"

subsection \<open>Concrete inputs\<close>

definition art :: "string \<Rightarrow> article" where
  "art t = \<lparr> a_title = t, a_source = ''Kitco'', a_url = [], a_impact = 0.9 \<rparr>"

definition eod_note :: "nat \<Rightarrow> notification" where
  "eod_note d =
     \<lparr> n_type = EOD, n_title = ''Gold Trading: End-of-Day Report'', n_data = EodData d \<rparr>"

text \<open>A poll at day d, h:m, that reaches the end-of-day check and can build its report.\<close>

definition tick :: "nat \<Rightarrow> nat \<Rightarrow> nat \<Rightarrow> poll" where
  "tick d h m =
     \<lparr> p_now = \<lparr> dt_date = d, dt_hour = h, dt_minute = m \<rparr>, p_reaches_check = True,
       p_report = Some (eod_note d) \<rparr>"

text \<open>The bot's instance: \<open>NotificationSystem(check_interval=900)\<close> with no history file.\<close>

definition ns0 :: notification_system where
  "ns0 = init_notification_system 900 0.5 70 30 Missing"

text \<open>A bar with all four prices equal.\<close>

definition flat_bar :: "real \<Rightarrow> bar" where
  "flat_bar c = \<lparr> Open = c, High = c, Low = c, Close = c, Volume = 0 \<rparr>"

text \<open>Bars with all prices equal to the given closes.\<close>

definition bars_of :: "real list \<Rightarrow> bar list" where
  "bars_of closes = map flat_bar closes"

definition zigzag_15 :: "bar list" where
  "zigzag_15 = bars_of [100, 99, 100, 99, 100, 99, 100, 99, 100, 99, 100, 99, 100, 99, 100]"

definition rising_15 :: "bar list" where
  "rising_15 = bars_of [100, 101, 102, 103, 104, 105, 106, 107, 108, 109, 110, 111, 112, 113, 114]"


text \<open>200 bars: one at 100, then 199 at 101.\<close>

definition step_bars :: "bar list" where
  "step_bars = flat_bar 100 # replicate 199 (flat_bar 101)"

text \<open>200 equal bars with low 1000, high 2000 and close 1500.\<close>

definition range_bars :: "bar list" where
  "range_bars = replicate 200 \<lparr> Open = 1500, High = 2000, Low = 1000, Close = 1500, Volume = 0 \<rparr>"

text \<open>200 bars with low 1000, close 1500 and a high that rises by 1 per bar.\<close>

definition drift_bars :: "bar list" where
  "drift_bars =
     map (\<lambda>k. \<lparr> Open = 1500, High = 2000 + real k, Low = 1000, Close = 1500, Volume = 0 \<rparr>)
       [0..<200]"

text \<open>200 flat bars: 199 at 1900 and a last one at the given price.\<close>

definition jump_bars :: "real \<Rightarrow> bar list" where
  "jump_bars x = replicate 199 (flat_bar 1900) @ [flat_bar x]"

section \<open>Successive calls\<close>

lemma run_checks_append:
  "run_checks f st (xs @ ys) =
     (case run_checks f st xs of (rs, st') \<Rightarrow>
        (case run_checks f st' ys of (rs', st'') \<Rightarrow> (rs @ rs', st'')))"
  by (induction xs arbitrary: st) (auto split: prod.splits)

lemma ns0_simps:
  "last_price ns0 = None" "last_signal ns0 = None" "last_news_ids ns0 = {}"
  "notifications_history ns0 = []" "price_change_threshold ns0 = 0.5"
  by (simp_all add: ns0_def init_notification_system_def load_notification_history_def)

section \<open>Price movement\<close>

text \<open>
  C5. The first call of \<open>check_price_movement\<close> with a price stores it and returns no
  event. On a later call, with a stored baseline l (not zero, so that the percentage is
  defined) and a price p, a PRICE event carrying p, l, p - l and the percentage is
  returned exactly when the absolute percentage change is at least the threshold, and
  the baseline becomes p whether or not an event was returned. On the prices 1900.00,
  1919.50, 1920.00 with threshold 0.5 the three calls return nothing, a PRICE event
  with change 19.50, and nothing, and leave the baseline at 1920.00.
\<close>

theorem check_price_movement_rebases:
  "(last_price ns = None \<longrightarrow>
      check_price_movement ns (Some p) = (Inr None, ns\<lparr>last_price := Some p\<rparr>)) \<and>
   (last_price ns = Some l \<and> l \<noteq> 0 \<longrightarrow>
      (\<exists>ev. check_price_movement ns (Some p) = (Inr ev, ns\<lparr>last_price := Some p\<rparr>) \<and>
            (ev \<noteq> None \<longleftrightarrow> \<bar>(p - l) / l * 100\<bar> \<ge> price_change_threshold ns) \<and>
            (\<forall>n. ev = Some n \<longrightarrow>
                 n_type n = PRICE \<and>
                 n_data n = PriceData p l (p - l) ((p - l) / l * 100)))) \<and>
   run_checks check_price_movement ns0 [Some 1900, Some 1919.5, Some 1920] =
     ([Inr None,
       Inr (Some \<lparr> n_type = PRICE, n_title = ''Gold Price Up'',
                   n_data = PriceData 1919.5 1900 19.5 (19.5 / 1900 * 100) \<rparr>),
       Inr None],
      ns0\<lparr>last_price := Some 1920\<rparr>)"
  by (auto simp: check_price_movement_def Let_def ns0_def init_notification_system_def
        load_notification_history_def)

theorem check_price_movement_rebases_witness:
  "last_price ns0 = None \<and>
   check_price_movement ns0 (Some 1900) = (Inr None, ns0\<lparr>last_price := Some 1900\<rparr>) \<and>
   last_price (ns0\<lparr>last_price := Some 1919.5\<rparr>) = Some 1919.5 \<and>
   (\<exists>ev. check_price_movement (ns0\<lparr>last_price := Some 1919.5\<rparr>) (Some 1920) =
           (Inr ev, ns0\<lparr>last_price := Some 1920\<rparr>) \<and> ev = None)"
  using check_price_movement_rebases [of ns0 1900 0]
        check_price_movement_rebases [of "ns0\<lparr>last_price := Some 1919.5\<rparr>" 1920 "1919.5"]
  by (auto simp: ns0_simps)

section \<open>News\<close>

text \<open>
  C1. The claim is that after every call but the first, \<open>last_news_ids\<close> is the set of
  ids of the current high-impact items, so that an id that vanished and came back is
  reported again. Evaluated on three calls with the high-impact sets {A, B}, {A},
  {A, B}: the second call finds no new id and returns before the assignment, so
  \<open>last_news_ids\<close> is still {A, B} and not {A}; the third call then reports nothing
  for B.
\<close>

theorem check_news_keeps_vanished_ids:
  "run_checks check_news ns0
     [Some [art ''A'', art ''B''], Some [art ''A''], Some [art ''A'', art ''B'']] =
     ([[], [], []], ns0\<lparr>last_news_ids := {''A|Kitco'', ''B|Kitco''}\<rparr>) \<and>
   snd (run_checks check_news ns0 [Some [art ''A'', art ''B''], Some [art ''A'']]) =
     ns0\<lparr>last_news_ids := {''A|Kitco'', ''B|Kitco''}\<rparr> \<and>
   set (map news_id (get_high_impact_news [art ''A''] 0.7)) = {''A|Kitco''}"
  by (simp add: check_news_def get_high_impact_news_def news_id_def art_def Let_def
        ns0_def init_notification_system_def load_notification_history_def insert_commute)

section \<open>Notification history\<close>

lemma last_100_length: "length (last_100 xs) = min 100 (length xs)"
  by (simp add: last_100_def)

lemma add_notification_history:
  "add_notification (ns, hf) (n, w) = (ok, ns', hf') \<Longrightarrow>
   notifications_history ns' =
     notifications_history ns @ (case n of None \<Rightarrow> [] | Some x \<Rightarrow> [x])"
  by (auto simp: add_notification_def Let_def split: option.splits)

lemma add_notification_file:
  "add_notification (ns, hf) (n, w) = (ok, ns', hf') \<Longrightarrow>
   file_entries hf \<le> 100 \<Longrightarrow> file_entries hf' \<le> 100"
  by (auto simp: add_notification_def Let_def save_notification_history_def last_100_length
      split: option.splits write_outcome.splits)

lemma run_add_history:
  "notifications_history (fst (snd (run_checks add_notification (ns, hf) calls))) =
     notifications_history ns @ added calls"
proof (induction calls arbitrary: ns hf)
  case Nil
  then show ?case by (simp add: added_def)
next
  case (Cons c calls)
  obtain n w where c: "c = (n, w)" by (cases c)
  obtain ok ns1 hf1 where s: "add_notification (ns, hf) (n, w) = (ok, ns1, hf1)"
    by (cases "add_notification (ns, hf) (n, w)")
  from Cons.IH [of ns1 hf1] add_notification_history [OF s] c s
  show ?case by (auto simp: added_def split: prod.splits)
qed

lemma run_add_file:
  "file_entries hf \<le> 100 \<Longrightarrow>
   file_entries (snd (snd (run_checks add_notification (ns, hf) calls))) \<le> 100"
proof (induction calls arbitrary: ns hf)
  case Nil
  then show ?case by simp
next
  case (Cons c calls)
  obtain n w where c: "c = (n, w)" by (cases c)
  obtain ok ns1 hf1 where s: "add_notification (ns, hf) (n, w) = (ok, ns1, hf1)"
    by (cases "add_notification (ns, hf) (n, w)")
  from add_notification_file [OF s Cons.prems] Cons.IH [of hf1 ns1] c s
  show ?case by (auto split: prod.splits)
qed

lemma added_replicate: "added (replicate k (Some n, w)) = replicate k n"
  unfolding added_def by (induction k) simp_all

text \<open>
  C4. The claim is that the history never exceeds 100 entries, in memory and in the
  file. In memory it does: after 101 calls of \<open>add_notification\<close> on a fresh instance
  the list holds 101 entries.
\<close>

theorem history_in_memory_exceeds_100:
  "length (notifications_history (fst (snd
      (run_checks add_notification (ns0, Missing)
         (replicate 101 (Some (eod_note 0), WriteOk)))))) = 101"
  using run_add_history [of ns0 Missing "replicate 101 (Some (eod_note 0), WriteOk)"]
  by (simp add: added_replicate ns0_simps)

text \<open>
  C4, amended. For every sequence of \<open>add_notification\<close> calls: the list in memory is
  the old list followed by every notification that was added, with nothing discarded;
  a history file that held at most 100 entries holds at most 100 afterwards; and a
  call whose write succeeds stores exactly the last 100 entries of the list in memory
  (all of them when there are fewer), the oldest ones being left out of the file.
\<close>

theorem history_file_holds_last_100:
  "notifications_history (fst (snd (run_checks add_notification (ns, hf) calls))) =
     notifications_history ns @ added calls \<and>
   (file_entries hf \<le> 100 \<longrightarrow>
      file_entries (snd (snd (run_checks add_notification (ns, hf) calls))) \<le> 100) \<and>
   add_notification (ns, hf) (Some n, WriteOk) =
     (True, ns\<lparr>notifications_history := notifications_history ns @ [n]\<rparr>,
      Stored (last_100 (notifications_history ns @ [n]))) \<and>
   length (last_100 (notifications_history ns @ [n])) =
     min 100 (length (notifications_history ns) + 1) \<and>
   (\<exists>older. notifications_history ns @ [n] =
             older @ last_100 (notifications_history ns @ [n]))"
proof -
  have "add_notification (ns, hf) (Some n, WriteOk) =
     (True, ns\<lparr>notifications_history := notifications_history ns @ [n]\<rparr>,
      Stored (last_100 (notifications_history ns @ [n])))"
    by (simp add: add_notification_def Let_def save_notification_history_def)
  moreover have "\<exists>older. notifications_history ns @ [n] =
             older @ last_100 (notifications_history ns @ [n])"
    unfolding last_100_def by (metis append_take_drop_id)
  ultimately show ?thesis
    using run_add_history [of ns hf calls] run_add_file [of hf ns calls]
    by (simp add: last_100_length)
qed

theorem history_file_holds_last_100_witness:
  "file_entries Missing \<le> 100 \<and>
   file_entries (snd (snd (run_checks add_notification (ns0, Missing)
      (replicate 101 (Some (eod_note 0), WriteOk))))) \<le> 100"
  using history_file_holds_last_100
          [of ns0 Missing "replicate 101 (Some (eod_note 0), WriteOk)" "eod_note 0"]
  by simp

section \<open>End-of-day report\<close>

lemma report_dates_sent: "report_dates h m polls = sent_dates h m None polls"
  by (simp add: report_dates_def sent_dates_def run_monitoring_loop_def)

lemma loop_iteration_cases:
  "loop_iteration h m mark p = (None, mark) \<or>
   (\<exists>r. loop_iteration h m mark p = (Some r, Some (dt_date (p_now p))) \<and>
        above_mark mark (dt_date (p_now p)))"
  by (cases mark) (auto simp: loop_iteration_def eod_due_def split: option.splits)

lemma sent_dates_Cons:
  "sent_dates h m mark (p # ps) =
     (case loop_iteration h m mark p of
        (r, mark') \<Rightarrow>
          (if r \<noteq> None then [dt_date (p_now p)] else []) @ sent_dates h m mark' ps)"
  by (auto simp: sent_dates_def split: prod.splits)

lemma sent_dates_increasing:
  "sorted_wrt (<) (sent_dates h m mark ps) \<and>
   (\<forall>d \<in> set (sent_dates h m mark ps). above_mark mark d)"
proof (induction ps arbitrary: mark)
  case Nil
  then show ?case by (simp add: sent_dates_def)
next
  case (Cons p ps)
  from loop_iteration_cases [of h m mark p] show ?case
  proof
    assume "loop_iteration h m mark p = (None, mark)"
    with Cons [of mark] show ?thesis by (simp add: sent_dates_Cons)
  next
    assume "\<exists>r. loop_iteration h m mark p = (Some r, Some (dt_date (p_now p))) \<and>
        above_mark mark (dt_date (p_now p))"
    then obtain r where r: "loop_iteration h m mark p = (Some r, Some (dt_date (p_now p)))"
      and a: "above_mark mark (dt_date (p_now p))" by blast
    from Cons [of "Some (dt_date (p_now p))"] have
      s: "sorted_wrt (<) (sent_dates h m (Some (dt_date (p_now p))) ps)" and
      b: "\<forall>d \<in> set (sent_dates h m (Some (dt_date (p_now p))) ps). dt_date (p_now p) < d"
      by simp_all
    have "\<forall>d \<in> set (sent_dates h m (Some (dt_date (p_now p))) ps). above_mark mark d"
      using a b by (cases mark) auto
    with r s a b show ?thesis by (simp add: sent_dates_Cons)
  qed
qed

lemma distinct_count_le_1: "distinct xs \<Longrightarrow> count_list xs d \<le> 1"
  by (induction xs) (auto simp: count_list_0_iff)

lemma mark_is_sent_date:
  "snd (run_checks (loop_iteration h m) mark ps) = Some d \<Longrightarrow>
   mark = Some d \<or> d \<in> set (sent_dates h m mark ps)"
proof (induction ps arbitrary: mark)
  case Nil
  then show ?case by simp
next
  case (Cons p ps)
  obtain r mark' where l: "loop_iteration h m mark p = (r, mark')"
    by (cases "loop_iteration h m mark p")
  from Cons.prems l have "snd (run_checks (loop_iteration h m) mark' ps) = Some d"
    by (simp split: prod.splits)
  from Cons.IH [OF this] have c: "mark' = Some d \<or> d \<in> set (sent_dates h m mark' ps)" .
  from loop_iteration_cases [of h m mark p] l c show ?case
    by (auto simp: sent_dates_Cons)
qed

lemma sent_dates_are_poll_dates:
  "set (sent_dates h m mark ps) \<subseteq> set (map (\<lambda>p. dt_date (p_now p)) ps)"
  unfolding sent_dates_def by (auto dest!: set_zip_leftD)

text \<open>
  C7. For every sequence of polls of the monitoring loop, of any length and at any
  times, no calendar date occurs twice among the dates on which an end-of-day report
  was sent: at most one report per date.
\<close>

theorem eod_at_most_once_per_date:
  "distinct (report_dates eod_hour eod_minute polls) \<and>
   count_list (report_dates eod_hour eod_minute polls) d \<le> 1"
proof -
  have "sorted_wrt (<) (report_dates eod_hour eod_minute polls)"
    using sent_dates_increasing [of eod_hour eod_minute None polls]
    by (simp add: report_dates_sent)
  then have d: "distinct (report_dates eod_hour eod_minute polls)"
    by (simp add: strict_sorted_iff)
  with distinct_count_le_1 [OF d] show ?thesis by simp
qed

theorem eod_at_most_once_per_date_witness:
  "report_dates 16 0 [tick 1 16 0, tick 1 16 15, tick 1 16 30, tick 2 16 5] = [1, 2] \<and>
   count_list (report_dates 16 0 [tick 1 16 0, tick 1 16 15, tick 1 16 30, tick 2 16 5]) 1 \<le> 1"
  using eod_at_most_once_per_date [of 16 0 "[tick 1 16 0, tick 1 16 15, tick 1 16 30, tick 2 16 5]" 1]
  by (simp add: report_dates_def run_monitoring_loop_def loop_iteration_def eod_due_def
      tick_def)

text \<open>
  C3. The claim is that the report fires on the first poll at or after
  \<open>eod_hour:eod_minute\<close>, however late. With the trigger at 16:00 and polls of one day
  at 15:50, 17:05 and 17:20, each reaching the check with a report available, no
  report is sent: the check asks for the hour to equal \<open>eod_hour\<close>.
\<close>

theorem eod_missed_after_trigger_hour:
  "run_monitoring_loop 16 0 [tick 1 15 50, tick 1 17 5, tick 1 17 20] =
     ([None, None, None], None)"
  by (simp add: run_monitoring_loop_def loop_iteration_def eod_due_def tick_def)

text \<open>
  C3, amended. For every sequence of polls with non-decreasing dates and every poll p
  that reaches the end-of-day check with a report available, on a date on which no
  report was sent by the earlier polls: the report is sent at p exactly when the hour
  of p equals \<open>eod_hour\<close> and its minute is at least \<open>eod_minute\<close>. So the report fires
  on the first such poll within the trigger hour, without an exact-minute match, and
  a poll in a later hour does not fire it.
\<close>

theorem eod_fires_in_trigger_hour:
  assumes "sorted (map (\<lambda>q. dt_date (p_now q)) (ps @ [p]))"
    and "dt_date (p_now p) \<notin> set (report_dates eod_hour eod_minute ps)"
    and "p_reaches_check p" and "p_report p = Some r"
  shows "fst (run_monitoring_loop eod_hour eod_minute (ps @ [p])) =
         fst (run_monitoring_loop eod_hour eod_minute ps) @
           [if dt_hour (p_now p) = eod_hour \<and> dt_minute (p_now p) \<ge> eod_minute
            then Some r else None]"
proof -
  obtain rs mark where run: "run_checks (loop_iteration eod_hour eod_minute) None ps = (rs, mark)"
    by (cases "run_checks (loop_iteration eod_hour eod_minute) None ps")
  have above: "above_mark mark (dt_date (p_now p))"
  proof (cases mark)
    case None
    then show ?thesis by simp
  next
    case (Some d)
    with run mark_is_sent_date [of eod_hour eod_minute None ps d]
    have in_sent: "d \<in> set (sent_dates eod_hour eod_minute None ps)" by simp
    with assms(2) have ne: "d \<noteq> dt_date (p_now p)" by (auto simp: report_dates_sent)
    from in_sent sent_dates_are_poll_dates [of eod_hour eod_minute None ps]
    have "d \<in> set (map (\<lambda>q. dt_date (p_now q)) ps)" by blast
    with assms(1) have "d \<le> dt_date (p_now p)" by (auto simp: sorted_append)
    with ne Some show ?thesis by simp
  qed
  have "loop_iteration eod_hour eod_minute mark p =
          (if dt_hour (p_now p) = eod_hour \<and> dt_minute (p_now p) \<ge> eod_minute
           then (Some r, Some (dt_date (p_now p))) else (None, mark))"
    using above assms(3,4) by (cases mark) (auto simp: loop_iteration_def eod_due_def)
  with run show ?thesis
    by (simp add: run_monitoring_loop_def run_checks_append)
qed

theorem eod_fires_in_trigger_hour_witness:
  "fst (run_monitoring_loop 16 0 ([tick 1 16 10, tick 1 16 25, tick 2 15 55] @ [tick 2 16 40])) =
   fst (run_monitoring_loop 16 0 [tick 1 16 10, tick 1 16 25, tick 2 15 55]) @
     [Some (eod_note 2)]"
proof -
  have a: "sorted (map (\<lambda>q. dt_date (p_now q))
                    ([tick 1 16 10, tick 1 16 25, tick 2 15 55] @ [tick 2 16 40]))"
    by (simp add: tick_def)
  have b: "dt_date (p_now (tick 2 16 40)) \<notin>
             set (report_dates 16 0 [tick 1 16 10, tick 1 16 25, tick 2 15 55])"
    by (simp add: report_dates_def run_monitoring_loop_def loop_iteration_def eod_due_def
        tick_def)
  have c: "p_reaches_check (tick 2 16 40)" by (simp add: tick_def)
  have d: "p_report (tick 2 16 40) = Some (eod_note 2)"
    by (simp add: tick_def)
  from eod_fires_in_trigger_hour [OF a b c d] show ?thesis by (simp add: tick_def)
qed

section \<open>Series shorter than the longest moving average\<close>

lemma generate_signals_short:
  "length d < 200 \<Longrightarrow> generate_signals (Some d) = None"
  by (simp add: generate_signals_def calculate_moving_averages_def
      split: option.splits prod.splits)

lemma moving_averages_short:
  "length d < 200 \<Longrightarrow> calculate_moving_averages (Some d) [20, 50, 200] = None"
  by (simp add: calculate_moving_averages_def)

text \<open>
  C10. With the default periods, a series of fewer than 200 bars (or no data at all)
  makes \<open>calculate_moving_averages\<close> return None, so \<open>generate_signals\<close> returns no
  signals at all, and \<open>check_technical_signals\<close> returns no event and leaves the
  whole state, \<open>last_signal\<close> included, as it was; on a first call nothing is seeded.
\<close>

theorem short_series_no_signals:
  "generate_signals None = None \<and> check_technical_signals ns None = (None, ns) \<and>
   (length d < 200 \<longrightarrow>
      calculate_moving_averages (Some d) [20, 50, 200] = None \<and>
      generate_signals (Some d) = None \<and>
      check_technical_signals ns (Some d) = (None, ns))"
proof -
  have a: "generate_signals None = None" by (simp add: generate_signals_def)
  then have b: "check_technical_signals ns None = (None, ns)"
    by (simp add: check_technical_signals_def)
  have c: "check_technical_signals ns (Some d) = (None, ns)" if "length d < 200"
    using generate_signals_short [OF that] by (simp add: check_technical_signals_def)
  from a b c generate_signals_short moving_averages_short show ?thesis by blast
qed

theorem short_series_no_signals_witness:
  "length (replicate 199 (flat_bar 1900)) < 200 \<and>
   generate_signals (Some (replicate 199 (flat_bar 1900))) = None \<and>
   check_technical_signals ns0 (Some (replicate 199 (flat_bar 1900))) = (None, ns0) \<and>
   last_signal ns0 = None"
  using short_series_no_signals [of ns0 "replicate 199 (flat_bar 1900)"]
  by (simp add: ns0_simps)

section \<open>The indicator pipeline, column by column\<close>

lemma length_diff [simp]: "length (diff xs) = length xs"
  by (cases xs) (simp_all add: diff_def)

lemma length_rolling_mean [simp]: "length (rolling_mean w xs) = length xs"
  by (simp add: rolling_mean_def)

lemma length_ewm_from [simp]: "length (ewm_from a prev xs) = length xs"
  by (induction xs arbitrary: prev) simp_all

lemma length_ewm_mean [simp]: "length (ewm_mean n xs) = length xs"
  by (cases xs) (simp_all add: ewm_mean_def)

lemma length_rsi_gain [simp]: "length (rsi_gain xs) = length xs"
  by (simp add: rsi_gain_def where_else_def)

lemma length_rsi_loss [simp]: "length (rsi_loss xs) = length xs"
  by (simp add: rsi_loss_def where_else_def)

lemma length_rsi_values [simp]: "length (rsi_values p xs) = length xs"
  by (simp add: rsi_values_def rsi_avg_gain_def rsi_avg_loss_def Let_def)

lemma length_macd_values [simp]:
  "length (fst (macd_values f s g xs)) = length xs"
  "length (fst (snd (macd_values f s g xs))) = length xs"
  "length (snd (snd (macd_values f s g xs))) = length xs"
  by (simp_all add: macd_values_def Let_def)

lemma nth_loc_set:
  "i < length sel \<Longrightarrow> i < length col \<Longrightarrow> loc_set sel v col ! i = (if sel ! i then v else col ! i)"
  by (simp add: loc_set_def)

lemma length_loc_set [simp]: "length (loc_set sel v col) = min (length sel) (length col)"
  by (simp add: loc_set_def)

lemma nth_rolling_mean:
  "i < length xs \<Longrightarrow>
   rolling_mean w xs ! i = (if i + 1 < w then NaN else window_mean (take w (drop (i + 1 - w) xs)))"
  by (simp add: rolling_mean_def)

lemma nth_diff:
  "i < length xs \<Longrightarrow> diff xs ! i = (if i = 0 then NaN else Fin (xs ! i - xs ! (i - 1)))"
  by (cases xs; cases i) (simp_all add: diff_def)

lemma nth_rsi_signal_col:
  "i < length rsi \<Longrightarrow> rsi_signal_col rsi ! i = rsi_vote (rsi ! i)"
  by (simp add: rsi_signal_col_def nth_loc_set rsi_vote_def)

lemma nth_macd_cross_signal_col:
  "i < length m \<Longrightarrow> length s = length m \<Longrightarrow>
   macd_cross_signal_col m s ! i = macd_vote (m ! i) (s ! i)"
  by (simp add: macd_cross_signal_col_def nth_loc_set macd_vote_def)

lemma nth_ma_cross_signal_col:
  "i < length a \<Longrightarrow> length b = length a \<Longrightarrow>
   ma_cross_signal_col a b ! i = ma_vote (a ! i) (b ! i)"
  by (simp add: ma_cross_signal_col_def nth_loc_set ma_vote_def)

lemma length_cols [simp]:
  "length (rsi_signal_col rsi) = length rsi"
  "length s = length m \<Longrightarrow> length (macd_cross_signal_col m s) = length m"
  "length b = length a \<Longrightarrow> length (ma_cross_signal_col a b) = length a"
  by (simp_all add: rsi_signal_col_def macd_cross_signal_col_def ma_cross_signal_col_def)

lemma generate_signals_long:
  "200 \<le> length d \<Longrightarrow>
   generate_signals (Some d) =
     Some (build_signals d (rsi_values 14 (map Close d)) (macd_values 12 26 9 (map Close d))
             (ma_values [20, 50, 200] (map Close d)))"
  by (simp add: generate_signals_def calculate_rsi_def calculate_macd_def
      calculate_moving_averages_def)

lemma map_of_ma_values:
  "map_of (ma_values [20, 50, 200] (map Close d)) 20 = Some (ma_col 20 d)"
  "map_of (ma_values [20, 50, 200] (map Close d)) 50 = Some (ma_col 50 d)"
  by (simp_all add: ma_values_def ma_col_def)

lemma build_signals_columns:
  assumes "length rsi = length d" "length m = length d" "length s = length d"
  shows "sg_Close (build_signals d rsi (m, s, h) (ma_values [20, 50, 200] (map Close d))) = map Close d"
    and "sg_RSI (build_signals d rsi (m, s, h) (ma_values [20, 50, 200] (map Close d))) = rsi"
    and "sg_MACD (build_signals d rsi (m, s, h) (ma_values [20, 50, 200] (map Close d))) = m"
    and "sg_MACD_Signal (build_signals d rsi (m, s, h) (ma_values [20, 50, 200] (map Close d))) = s"
    and "sg_MACD_Histogram (build_signals d rsi (m, s, h) (ma_values [20, 50, 200] (map Close d))) = h"
    and "sg_MA (build_signals d rsi (m, s, h) (ma_values [20, 50, 200] (map Close d))) =
           ma_values [20, 50, 200] (map Close d)"
    and "sg_RSI_Signal (build_signals d rsi (m, s, h) (ma_values [20, 50, 200] (map Close d))) =
           rsi_signal_col rsi"
    and "sg_MACD_Cross_Signal (build_signals d rsi (m, s, h) (ma_values [20, 50, 200] (map Close d))) =
           macd_cross_signal_col m s"
    and "sg_MA_Cross_Signal (build_signals d rsi (m, s, h) (ma_values [20, 50, 200] (map Close d))) =
           Some (ma_cross_signal_col (ma_col 20 d) (ma_col 50 d))"
    and "length (sg_Signal (build_signals d rsi (m, s, h) (ma_values [20, 50, 200] (map Close d)))) = length d"
  using assms
  by (simp_all add: build_signals_def Let_def map_of_ma_values add_col_def ma_col_def)

lemma build_signals_row:
  assumes "length rsi = length d" "length m = length d" "length s = length d" "i < length d"
  shows "sg_Signal (build_signals d rsi (m, s, h) (ma_values [20, 50, 200] (map Close d))) ! i =
         real_of_int (rsi_vote (rsi ! i) + macd_vote (m ! i) (s ! i) +
                      ma_vote (ma_col 20 d ! i) (ma_col 50 d ! i)) / 3"
  using assms
  by (simp add: build_signals_def Let_def map_of_ma_values add_col_def ma_col_def
      nth_rsi_signal_col nth_macd_cross_signal_col nth_ma_cross_signal_col)

section \<open>RSI\<close>

lemma diff_elems: "x \<in> set (diff xs) \<Longrightarrow> x = NaN \<or> (\<exists>v. x = Fin v)"
  by (cases xs) (auto simp: diff_def dest!: set_zip_leftD)

lemma rsi_gain_nonneg: "x \<in> set (rsi_gain xs) \<Longrightarrow> nonneg_fin x"
  by (auto simp: rsi_gain_def where_else_def nonneg_fin_def dest!: diff_elems)

lemma rsi_loss_nonneg: "x \<in> set (rsi_loss xs) \<Longrightarrow> nonneg_fin x"
  by (auto simp: rsi_loss_def where_else_def nonneg_fin_def dest!: diff_elems)

lemma nonneg_fin_sum:
  "\<forall>x \<in> set ws. nonneg_fin x \<Longrightarrow> list_all is_Fin ws \<and> 0 \<le> sum_list (map fin_val ws)"
proof (induction ws)
  case Nil
  then show ?case by simp
next
  case (Cons w ws)
  then show ?case by (cases w) (auto simp: nonneg_fin_def)
qed

lemma window_mean_nonneg:
  "\<forall>x \<in> set ws. nonneg_fin x \<Longrightarrow> nonneg_fin (window_mean ws)"
  using nonneg_fin_sum [of ws] by (simp add: window_mean_def nonneg_fin_def)

lemma rolling_mean_nonneg:
  assumes "\<forall>x \<in> set xs. nonneg_fin x" and "i < length xs"
  shows "if i + 1 < w then rolling_mean w xs ! i = NaN else nonneg_fin (rolling_mean w xs ! i)"
proof -
  have "\<forall>x \<in> set (take w (drop (i + 1 - w) xs)). nonneg_fin x"
    using assms(1) by (meson in_set_dropD in_set_takeD)
  from window_mean_nonneg [OF this] assms(2) show ?thesis
    by (simp add: nth_rolling_mean)
qed

lemma nth_rsi_values:
  "i < length xs \<Longrightarrow>
   rsi_values p xs ! i = rsi_of_rs (fl_div (rsi_avg_gain p xs ! i) (rsi_avg_loss p xs ! i))"
  by (simp add: rsi_values_def Let_def rsi_avg_gain_def rsi_avg_loss_def)

lemma rsi_of_rs_bounds:
  assumes "0 \<le> g" and "0 < l"
  shows "\<exists>r. rsi_of_rs (fl_div (Fin g) (Fin l)) = Fin r \<and> 0 \<le> r \<and> r \<le> 100"
proof -
  have pos: "1 \<le> 1 + g / l" using assms by simp
  then have up: "100 / (1 + g / l) \<le> 100 / 1"
    by (intro divide_left_mono) simp_all
  have lo: "0 \<le> 100 / (1 + g / l)" using pos by simp
  have nz: "1 + g / l \<noteq> 0" using pos by simp
  have "rsi_of_rs (fl_div (Fin g) (Fin l)) = Fin (100 - 100 / (1 + g / l))"
    using assms(2) nz by (simp add: rsi_of_rs_def fl_sub_def)
  with up lo show ?thesis by simp
qed

lemma rsi_of_rs_no_loss: "0 < g \<Longrightarrow> rsi_of_rs (fl_div (Fin g) (Fin 0)) = Fin 100"
  by (simp add: rsi_of_rs_def fl_sub_def)

text \<open>
  C9. For every series long enough for the RSI (at least period + 1 bars),
  \<open>calculate_rsi\<close> returns one value per bar, and at every bar: where the average
  loss is a positive number the RSI is a number between 0 and 100; where the average
  loss is 0 and the average gain is positive the RSI is 100.
\<close>

theorem rsi_bounds:
  assumes "0 < period" and "period + 1 \<le> length d" and "i < length d"
  shows "\<exists>rsi. calculate_rsi (Some d) period = Some rsi \<and> length rsi = length d \<and>
     (\<forall>l. rsi_avg_loss period (map Close d) ! i = Fin l \<and> 0 < l \<longrightarrow>
          (\<exists>r. rsi ! i = Fin r \<and> 0 \<le> r \<and> r \<le> 100)) \<and>
     (\<forall>g. rsi_avg_loss period (map Close d) ! i = Fin 0 \<and>
          rsi_avg_gain period (map Close d) ! i = Fin g \<and> 0 < g \<longrightarrow> rsi ! i = Fin 100)"
proof -
  let ?c = "map Close d"
  have calc: "calculate_rsi (Some d) period = Some (rsi_values period ?c)"
    using assms(2) by (simp add: calculate_rsi_def)
  have i: "i < length ?c" using assms(3) by simp
  have row: "rsi_values period ?c ! i =
      rsi_of_rs (fl_div (rsi_avg_gain period ?c ! i) (rsi_avg_loss period ?c ! i))"
    using i by (rule nth_rsi_values)
  have gain: "if i + 1 < period then rsi_avg_gain period ?c ! i = NaN
              else nonneg_fin (rsi_avg_gain period ?c ! i)"
    unfolding rsi_avg_gain_def
    by (rule rolling_mean_nonneg) (use i in \<open>auto intro: rsi_gain_nonneg\<close>)
  have loss: "if i + 1 < period then rsi_avg_loss period ?c ! i = NaN
              else nonneg_fin (rsi_avg_loss period ?c ! i)"
    unfolding rsi_avg_loss_def
    by (rule rolling_mean_nonneg) (use i in \<open>auto intro: rsi_loss_nonneg\<close>)
  have a: "\<exists>r. rsi_values period ?c ! i = Fin r \<and> 0 \<le> r \<and> r \<le> 100"
    if "rsi_avg_loss period ?c ! i = Fin l" and "0 < l" for l
  proof -
    from that(1) loss have "\<not> i + 1 < period" by (auto split: if_splits)
    with gain obtain g where g: "rsi_avg_gain period ?c ! i = Fin g" "0 \<le> g"
      by (auto simp: nonneg_fin_def split: fl.splits)
    from rsi_of_rs_bounds [OF g(2) that(2)] row g(1) that(1) show ?thesis by simp
  qed
  have b: "rsi_values period ?c ! i = Fin 100"
    if "rsi_avg_loss period ?c ! i = Fin 0" and "rsi_avg_gain period ?c ! i = Fin g" and "0 < g"
    for g
    using row that rsi_of_rs_no_loss by simp
  from calc a b show ?thesis by auto
qed

lemma zig_loss: "rsi_avg_loss 14 (map Close zigzag_15) ! 14 = Fin (1 / 2)"
  by (simp add: zigzag_15_def bars_of_def flat_bar_def rsi_avg_loss_def nth_rolling_mean
      rsi_loss_def where_else_def diff_def window_mean_def)

lemma up_loss: "rsi_avg_loss 14 (map Close rising_15) ! 14 = Fin 0"
  by (simp add: rising_15_def bars_of_def flat_bar_def rsi_avg_loss_def nth_rolling_mean
      rsi_loss_def where_else_def diff_def window_mean_def)

lemma up_gain: "rsi_avg_gain 14 (map Close rising_15) ! 14 = Fin 1"
  by (simp add: rising_15_def bars_of_def flat_bar_def rsi_avg_gain_def nth_rolling_mean
      rsi_gain_def where_else_def diff_def window_mean_def)

theorem rsi_bounds_witness:
  "rsi_avg_loss 14 (map Close zigzag_15) ! 14 = Fin (1 / 2) \<and>
   (\<exists>rsi r. calculate_rsi (Some zigzag_15) 14 = Some rsi \<and> rsi ! 14 = Fin r \<and> 0 \<le> r \<and> r \<le> 100) \<and>
   rsi_avg_loss 14 (map Close rising_15) ! 14 = Fin 0 \<and>
   rsi_avg_gain 14 (map Close rising_15) ! 14 = Fin 1 \<and>
   (\<exists>rsi. calculate_rsi (Some rising_15) 14 = Some rsi \<and> rsi ! 14 = Fin 100)"
proof -
  have len: "length zigzag_15 = 15" "length rising_15 = 15"
    by (simp_all add: zigzag_15_def rising_15_def bars_of_def)
  from rsi_bounds [of 14 zigzag_15 14] len obtain rsi where
    z: "calculate_rsi (Some zigzag_15) 14 = Some rsi"
       "\<forall>l. rsi_avg_loss 14 (map Close zigzag_15) ! 14 = Fin l \<and> 0 < l \<longrightarrow>
          (\<exists>r. rsi ! 14 = Fin r \<and> 0 \<le> r \<and> r \<le> 100)"
    by auto
  from z(2) zig_loss have "\<exists>r. rsi ! 14 = Fin r \<and> 0 \<le> r \<and> r \<le> 100"
    by (elim allE [of _ "1 / 2"]) simp
  with z(1)
  have a: "\<exists>rsi r. calculate_rsi (Some zigzag_15) 14 = Some rsi \<and> rsi ! 14 = Fin r \<and> 0 \<le> r \<and> r \<le> 100"
    by blast
  from rsi_bounds [of 14 rising_15 14] len obtain rsi' where
    u: "calculate_rsi (Some rising_15) 14 = Some rsi'"
       "\<forall>g. rsi_avg_loss 14 (map Close rising_15) ! 14 = Fin 0 \<and>
          rsi_avg_gain 14 (map Close rising_15) ! 14 = Fin g \<and> 0 < g \<longrightarrow> rsi' ! 14 = Fin 100"
    by auto
  from u(2) up_loss up_gain have "rsi' ! 14 = Fin 100"
    by (elim allE [of _ 1]) simp
  with u(1) have b: "\<exists>rsi. calculate_rsi (Some rising_15) 14 = Some rsi \<and> rsi ! 14 = Fin 100"
    by blast
  from a b zig_loss up_loss up_gain show ?thesis by blast
qed

section \<open>Composite signal\<close>

lemma nth_ewm_mean_0: "xs \<noteq> [] \<Longrightarrow> ewm_mean n xs ! 0 = xs ! 0"
  by (cases xs) (simp_all add: ewm_mean_def)

lemma nth_ewm_mean_1:
  "1 < length xs \<Longrightarrow>
   ewm_mean n xs ! Suc 0 = 2 / (real n + 1) * xs ! Suc 0 + (1 - 2 / (real n + 1)) * xs ! 0"
proof -
  assume "1 < length xs"
  then obtain x0 x1 r where "xs = x0 # x1 # r"
    by (cases xs; cases "tl xs") auto
  then show ?thesis by (simp add: ewm_mean_def)
qed

lemma rsi_of_rs_NaN: "rsi_of_rs (fl_div NaN x) = NaN" "rsi_of_rs NaN = NaN"
  by (simp_all add: rsi_of_rs_def fl_sub_def)

lemma rsi_warmup:
  "i < length xs \<Longrightarrow> i + 1 < p \<Longrightarrow> rsi_values p xs ! i = NaN"
  by (simp add: nth_rsi_values rsi_avg_gain_def nth_rolling_mean rsi_of_rs_NaN)

lemma ma_warmup: "i < length d \<Longrightarrow> i + 1 < p \<Longrightarrow> ma_col p d ! i = NaN"
  by (simp add: ma_col_def nth_rolling_mean)

lemma fl_lt_NaN_right [simp]: "fl_lt a NaN = False"
  by (cases a) simp_all

lemma votes_NaN: "rsi_vote NaN = 0" "ma_vote NaN b = 0" "ma_vote a NaN = 0"
  by (simp_all add: rsi_vote_def ma_vote_def)

lemma signals_row:
  assumes "200 \<le> length d" and "i < length d"
  shows "\<exists>s mc. generate_signals (Some d) = Some s \<and> sg_MA_Cross_Signal s = Some mc \<and>
     sg_RSI s = rsi_values 14 (map Close d) \<and>
     sg_MACD s = fst (macd_values 12 26 9 (map Close d)) \<and>
     sg_MACD_Signal s = fst (snd (macd_values 12 26 9 (map Close d))) \<and>
     sg_MA s = ma_values [20, 50, 200] (map Close d) \<and>
     sg_Close s = map Close d \<and>
     length (sg_Signal s) = length d \<and>
     sg_Signal s ! i =
       real_of_int (sg_RSI_Signal s ! i + sg_MACD_Cross_Signal s ! i + mc ! i) / 3 \<and>
     sg_RSI_Signal s ! i = rsi_vote (sg_RSI s ! i) \<and>
     sg_MACD_Cross_Signal s ! i = macd_vote (sg_MACD s ! i) (sg_MACD_Signal s ! i) \<and>
     mc ! i = ma_vote (ma_col 20 d ! i) (ma_col 50 d ! i)"
proof -
  obtain m sl h where mv: "macd_values 12 26 9 (map Close d) = (m, sl, h)"
    by (cases "macd_values 12 26 9 (map Close d)")
  have lens: "length (rsi_values 14 (map Close d)) = length d" "length m = length d"
    "length sl = length d"
    using length_macd_values(1,2) [of 12 26 9 "map Close d"] mv by simp_all
  note cols = build_signals_columns [OF lens, of h]
  note row = build_signals_row [OF lens assms(2), of h]
  have g: "generate_signals (Some d) =
      Some (build_signals d (rsi_values 14 (map Close d)) (m, sl, h)
              (ma_values [20, 50, 200] (map Close d)))"
    using generate_signals_long [OF assms(1)] mv by simp
  show ?thesis
    using g cols row lens assms(2) mv
    by (simp add: nth_rsi_signal_col nth_macd_cross_signal_col nth_ma_cross_signal_col ma_col_def)
qed


lemma step_closes: "map Close step_bars = 100 # replicate 199 101"
  by (simp add: step_bars_def flat_bar_def)

lemma step_len: "length step_bars = 200"
  by (simp add: step_bars_def)

lemma step_ema_1:
  "ewm_mean 12 (100 # replicate 199 101) ! Suc 0 = 100 + 2 / 13"
  "ewm_mean 26 (100 # replicate 199 101) ! Suc 0 = 100 + 2 / 27"
  by (simp_all add: nth_ewm_mean_1)

lemma step_macd_1:
  "fst (macd_values 12 26 9 (map Close step_bars)) ! 1 = 28 / 351"
  "fst (snd (macd_values 12 26 9 (map Close step_bars))) ! 1 = 28 / 1755"
proof -
  let ?m = "map2 (-) (ewm_mean 12 (100 # replicate 199 101))
                     (ewm_mean 26 (100 # replicate 199 101))"
  have m1: "?m ! Suc 0 = 28 / 351" by (simp add: step_ema_1)
  have m0: "?m ! 0 = 0" by (simp add: nth_ewm_mean_0)
  have len: "1 < length ?m" by simp
  have "ewm_mean 9 ?m ! Suc 0 = 28 / 1755"
    unfolding nth_ewm_mean_1 [OF len] m1 m0 by simp
  with m1 show "fst (macd_values 12 26 9 (map Close step_bars)) ! 1 = 28 / 351"
    "fst (snd (macd_values 12 26 9 (map Close step_bars))) ! 1 = 28 / 1755"
    by (simp_all add: macd_values_def Let_def step_closes)
qed

text \<open>
  C2. The claim is that the composite signal is the sum of the available sub-signals
  over their count, a sub-signal with missing inputs being left out of both. On 200
  bars closing at 100 and then at 101, at the second bar the RSI and both moving
  averages are still NaN and only the MACD sub-signal (+1) has its inputs: the code
  gives 1/3, the claim's formula gives 1. And on 199 bars the RSI and the MACD are
  computable but no signals are produced at all.
\<close>

theorem composite_counts_missing_as_zero:
  "generate_signals (Some step_bars) \<noteq> None \<and>
   generate_signals (Some (replicate 199 (flat_bar 100))) = None \<and>
   calculate_rsi (Some (replicate 199 (flat_bar 100))) 14 \<noteq> None \<and>
   calculate_macd (Some (replicate 199 (flat_bar 100))) 12 26 9 \<noteq> None \<and>
   sg_RSI (the (generate_signals (Some step_bars))) ! 1 = NaN \<and>
   sg_Signal (the (generate_signals (Some step_bars))) ! 1 = 1 / 3 \<and>
   spec_signal_at (the (generate_signals (Some step_bars))) 1 = Some 1"
proof -
  from signals_row [of step_bars 1] step_len obtain s mc where
    s: "generate_signals (Some step_bars) = Some s" "sg_MA_Cross_Signal s = Some mc"
       "sg_RSI s = rsi_values 14 (map Close step_bars)"
       "sg_MACD s = fst (macd_values 12 26 9 (map Close step_bars))"
       "sg_MACD_Signal s = fst (snd (macd_values 12 26 9 (map Close step_bars)))"
       "sg_MA s = ma_values [20, 50, 200] (map Close step_bars)"
       "sg_Signal s ! 1 =
          real_of_int (sg_RSI_Signal s ! 1 + sg_MACD_Cross_Signal s ! 1 + mc ! 1) / 3"
       "sg_RSI_Signal s ! 1 = rsi_vote (sg_RSI s ! 1)"
       "sg_MACD_Cross_Signal s ! 1 = macd_vote (sg_MACD s ! 1) (sg_MACD_Signal s ! 1)"
       "mc ! 1 = ma_vote (ma_col 20 step_bars ! 1) (ma_col 50 step_bars ! 1)"
    by auto
  have rsi: "sg_RSI s ! 1 = NaN"
    using s(3) step_len by (simp add: rsi_warmup)
  have ma: "ma_col 20 step_bars ! 1 = NaN"
    using step_len by (simp add: ma_warmup)
  have macd: "sg_MACD_Cross_Signal s ! 1 = 1"
    using s(9) s(4,5) step_macd_1 by (simp add: macd_vote_def)
  have mc: "mc ! 1 = 0" using s(10) ma by (simp add: votes_NaN)
  have r0: "sg_RSI_Signal s ! 1 = 0" using s(8) rsi by (simp add: votes_NaN)
  have sig: "sg_Signal s ! 1 = 1 / 3" using s(7) r0 macd mc by simp
  have ma20: "map_of (sg_MA s) 20 = Some (ma_col 20 step_bars)"
    "map_of (sg_MA s) 50 = Some (ma_col 50 step_bars)"
    using s(6) by (simp_all add: map_of_ma_values)
  have spec: "spec_signal_at s 1 = Some 1"
    using rsi ma macd ma20 s(2)
    by (simp add: spec_signal_at_def spec_composite_def available_def)
  have short: "generate_signals (Some (replicate 199 (flat_bar 100))) = None"
    by (rule generate_signals_short) simp
  have ind: "calculate_rsi (Some (replicate 199 (flat_bar 100))) 14 \<noteq> None"
    "calculate_macd (Some (replicate 199 (flat_bar 100))) 12 26 9 \<noteq> None"
    by (simp_all add: calculate_rsi_def calculate_macd_def)
  from s(1) rsi sig spec short ind show ?thesis by simp
qed

text \<open>
  C2, amended. For every series of at least 200 bars and every bar of it,
  \<open>generate_signals\<close> returns signals whose composite signal at the bar is the sum
  of the three sub-signals (RSI, MACD, MA) divided by 3. A sub-signal whose indicator
  is NaN at the bar (as in its warm-up: the first 13 bars for the RSI, the first 49 for
  the MA cross) is 0 there and is still counted in the 3. For a series of fewer than
  200 bars no signals are returned at all.
\<close>

theorem composite_divides_by_three:
  assumes "200 \<le> length d" and "i < length d"
  shows "(\<exists>s mc. generate_signals (Some d) = Some s \<and> sg_MA_Cross_Signal s = Some mc \<and>
     sg_Signal s ! i =
       real_of_int (sg_RSI_Signal s ! i + sg_MACD_Cross_Signal s ! i + mc ! i) / 3 \<and>
     sg_RSI_Signal s ! i = rsi_vote (sg_RSI s ! i) \<and>
     sg_MACD_Cross_Signal s ! i = macd_vote (sg_MACD s ! i) (sg_MACD_Signal s ! i) \<and>
     mc ! i = ma_vote (ma_col 20 d ! i) (ma_col 50 d ! i) \<and>
     (sg_RSI s ! i = NaN \<longrightarrow> sg_RSI_Signal s ! i = 0) \<and>
     (ma_col 20 d ! i = NaN \<or> ma_col 50 d ! i = NaN \<longrightarrow> mc ! i = 0) \<and>
     (i + 1 < 14 \<longrightarrow> sg_RSI s ! i = NaN) \<and>
     (i + 1 < 50 \<longrightarrow> ma_col 50 d ! i = NaN)) \<and>
   (\<forall>short. length short < 200 \<longrightarrow> generate_signals (Some short) = None)"
proof -
  from signals_row [OF assms] obtain s mc where
    s: "generate_signals (Some d) = Some s" "sg_MA_Cross_Signal s = Some mc"
       "sg_RSI s = rsi_values 14 (map Close d)"
       "sg_Signal s ! i =
          real_of_int (sg_RSI_Signal s ! i + sg_MACD_Cross_Signal s ! i + mc ! i) / 3"
       "sg_RSI_Signal s ! i = rsi_vote (sg_RSI s ! i)"
       "sg_MACD_Cross_Signal s ! i = macd_vote (sg_MACD s ! i) (sg_MACD_Signal s ! i)"
       "mc ! i = ma_vote (ma_col 20 d ! i) (ma_col 50 d ! i)"
    by auto
  have a: "sg_RSI s ! i = NaN \<longrightarrow> sg_RSI_Signal s ! i = 0"
    using s(5) by (simp add: votes_NaN)
  have b: "ma_col 20 d ! i = NaN \<or> ma_col 50 d ! i = NaN \<longrightarrow> mc ! i = 0"
    using s(7) by (auto simp: votes_NaN)
  have c: "i + 1 < 14 \<longrightarrow> sg_RSI s ! i = NaN"
    using s(3) assms(2) by (simp add: rsi_warmup)
  have e: "i + 1 < 50 \<longrightarrow> ma_col 50 d ! i = NaN"
    using assms(2) by (simp add: ma_warmup)
  from s(1,2,4,5,6,7) a b c e generate_signals_short show ?thesis by blast
qed

theorem composite_divides_by_three_witness:
  "200 \<le> length step_bars \<and> 1 < length step_bars \<and>
   (\<exists>s. generate_signals (Some step_bars) = Some s \<and> sg_Signal s ! 1 = 1 / 3 \<and>
        sg_RSI s ! 1 = NaN \<and> sg_RSI_Signal s ! 1 = 0 \<and> sg_MACD_Cross_Signal s ! 1 = 1) \<and>
   length (replicate 199 (flat_bar 100)) < 200 \<and>
   generate_signals (Some (replicate 199 (flat_bar 100))) = None"
proof -
  have a: "200 \<le> length step_bars" and b: "1 < length step_bars"
    by (simp_all add: step_len)
  from composite_divides_by_three [OF a b]
  have short: "generate_signals (Some (replicate 199 (flat_bar 100))) = None" by simp
  from composite_divides_by_three [OF a b] obtain s mc where
    s: "generate_signals (Some step_bars) = Some s"
       "sg_Signal s ! 1 =
          real_of_int (sg_RSI_Signal s ! 1 + sg_MACD_Cross_Signal s ! 1 + mc ! 1) / 3"
       "sg_MACD_Cross_Signal s ! 1 = macd_vote (sg_MACD s ! 1) (sg_MACD_Signal s ! 1)"
       "sg_RSI s ! 1 = NaN \<longrightarrow> sg_RSI_Signal s ! 1 = 0"
       "ma_col 20 step_bars ! 1 = NaN \<or> ma_col 50 step_bars ! 1 = NaN \<longrightarrow> mc ! 1 = 0"
       "1 + 1 < (14::nat) \<longrightarrow> sg_RSI s ! 1 = NaN"
       "1 + 1 < (50::nat) \<longrightarrow> ma_col 50 step_bars ! 1 = NaN"
    by blast
  from signals_row [OF a b] s(1) have
    "sg_MACD s = fst (macd_values 12 26 9 (map Close step_bars))"
    "sg_MACD_Signal s = fst (snd (macd_values 12 26 9 (map Close step_bars)))"
    by auto
  with s(3) step_macd_1 have m: "sg_MACD_Cross_Signal s ! 1 = 1" by (simp add: macd_vote_def)
  from s(6) have r: "sg_RSI s ! 1 = NaN" by simp
  with s(4) have r0: "sg_RSI_Signal s ! 1 = 0" by simp
  from s(5,7) have "mc ! 1 = 0" by simp
  with s(2) m r0 have "sg_Signal s ! 1 = 1 / 3" by simp
  with s(1) r r0 m a b short show ?thesis by auto
qed

section \<open>Signal summary\<close>

lemma py_max_Max: "py_max xs = (if xs = [] then None else Some (Max (set xs)))"
  by (cases xs) (simp_all add: py_max_def Max.set_eq_fold [symmetric])

lemma py_min_Min: "py_min xs = (if xs = [] then None else Some (Min (set xs)))"
  by (cases xs) (simp_all add: py_min_def Min.set_eq_fold [symmetric])

lemma find_levels_None:
  "identify_support_resistance data 10 = None \<Longrightarrow> find_levels data price = None"
  by (simp add: find_levels_def)

lemma find_levels_empty:
  "identify_support_resistance data 10 = Some (sups, ress) \<Longrightarrow> sups = [] \<or> ress = [] \<Longrightarrow>
   find_levels data price = None"
  by (auto simp: find_levels_def)

lemma find_levels_both:
  assumes "identify_support_resistance data 10 = Some (sups, ress)" "sups \<noteq> []" "ress \<noteq> []"
  shows "\<exists>lv. find_levels data price = Some lv \<and>
           closest_support lv =
             (if \<exists>x \<in> set sups. x < price then Some (Max {x \<in> set sups. x < price}) else None) \<and>
           closest_resistance lv =
             (if \<exists>x \<in> set ress. x > price then Some (Min {x \<in> set ress. x > price}) else None)"
proof -
  have a: "filter (\<lambda>l. l < price) sups = [] \<longleftrightarrow> \<not> (\<exists>x \<in> set sups. x < price)"
    by (auto simp: filter_empty_conv)
  have b: "filter (\<lambda>l. l > price) ress = [] \<longleftrightarrow> \<not> (\<exists>x \<in> set ress. x > price)"
    by (auto simp: filter_empty_conv)
  show ?thesis using assms a b
    by (simp add: find_levels_def Let_def py_max_Max py_min_Min)
qed

lemma get_signal_summary_levels:
  "get_signal_summary data sigs = Some summ \<Longrightarrow>
   sm_levels summ = find_levels data (sm_price summ)"
  unfolding get_signal_summary_def
  by (auto split: option.splits if_splits)


lemma those_ma_values:
  "c \<noteq> [] \<Longrightarrow>
   those (map (\<lambda>(p, col). map_option (Pair p) (iloc_last col)) (ma_values [20, 50, 200] c)) =
     Some (map (\<lambda>(p, col). (p, last col)) (ma_values [20, 50, 200] c))"
  by (simp add: ma_values_def iloc_last_def rolling_mean_def)

lemma summary_of_signals:
  assumes "200 \<le> length d"
  shows "\<exists>s summ. generate_signals (Some d) = Some s \<and>
           get_signal_summary (Some d) (Some s) = Some summ \<and>
           get_signal_summary (Some d) None = Some summ \<and>
           \<not> signals_empty s \<and>
           length (sg_Signal s) = length d \<and>
           sm_price summ = Close (last d) \<and>
           sm_signal_type summ = classify_signal (last (sg_Signal s))"
proof -
  obtain m sl h where mv: "macd_values 12 26 9 (map Close d) = (m, sl, h)"
    by (cases "macd_values 12 26 9 (map Close d)")
  have lens: "length (rsi_values 14 (map Close d)) = length d" "length m = length d"
    "length sl = length d"
    using length_macd_values(1,2) [of 12 26 9 "map Close d"] mv by simp_all
  have lh: "length h = length d"
    using length_macd_values(3) [of 12 26 9 "map Close d"] mv by simp
  note cols = build_signals_columns [OF lens, of h]
  let ?s = "build_signals d (rsi_values 14 (map Close d)) (m, sl, h)
              (ma_values [20, 50, 200] (map Close d))"
  have g: "generate_signals (Some d) = Some ?s"
    using generate_signals_long [OF assms] mv by simp
  have ne: "d \<noteq> []" "m \<noteq> []" "sl \<noteq> []" "h \<noteq> []" "rsi_values 14 (map Close d) \<noteq> []"
    "sg_Signal ?s \<noteq> []"
    using assms lens lh cols(10) by (auto simp flip: length_0_conv)
  have ma: "those (map (\<lambda>(p, col). map_option (Pair p) (iloc_last col))
                    (ma_values [20, 50, 200] (map Close d))) =
     Some (map (\<lambda>(p, col). (p, last col)) (ma_values [20, 50, 200] (map Close d)))"
    using ne(1) by (intro those_ma_values) simp
  have "get_signal_summary (Some d) (Some ?s) =
        Some \<lparr> sm_price = Close (last d),
               sm_signal_type = classify_signal (last (sg_Signal ?s)),
               sm_signal_strength = \<bar>last (sg_Signal ?s)\<bar>,
               sm_rsi = last (rsi_values 14 (map Close d)), sm_macd = last m,
               sm_macd_signal = last sl, sm_macd_histogram = last h,
               sm_ma = map (\<lambda>(p, col). (p, last col)) (ma_values [20, 50, 200] (map Close d)),
               sm_levels = find_levels (Some d) (Close (last d)) \<rparr>"
    using ne ma
    by (simp add: get_signal_summary_def cols signals_empty_def iloc_last_def last_map)
  with g cols(10) ne(1) show ?thesis
    by (simp add: get_signal_summary_def signals_empty_def cols)
qed


lemma local_min_const:
  assumes "\<forall>k < length lows. lows ! k = c" and "i + w < length lows"
  shows "is_local_min lows w i"
  using assms by (auto simp: is_local_min_def list_all_iff)

lemma local_max_const:
  assumes "\<forall>k < length highs. highs ! k = c" and "i + w < length highs"
  shows "is_local_max highs w i"
  using assms by (auto simp: is_local_max_def list_all_iff)

lemma local_max_rising:
  assumes "highs ! i < highs ! (i + 1)" and "0 < w"
  shows "\<not> is_local_max highs w i"
proof
  assume "is_local_max highs w i"
  then have "\<forall>j \<in> set [1..<w + 1]. highs ! i \<ge> highs ! (i + j)"
    by (simp add: is_local_max_def list_all_iff)
  moreover have "1 \<in> set [1..<w + 1]" using assms(2) by auto
  ultimately have "highs ! i \<ge> highs ! (i + 1)" by blast
  with assms(1) show False by simp
qed

lemma map_all_same: "\<forall>x \<in> set xs. f x = c \<Longrightarrow> map f xs = replicate (length xs) c"
  by (induction xs) simp_all

lemma levels_of_constant_lows:
  "filter (is_local_min (replicate 200 c) 10) [10..<190] = [10..<190]"
  "map (\<lambda>i. replicate 200 c ! i) [10..<190] = replicate 180 c"
proof -
  have "\<forall>i \<in> set [10..<190]. is_local_min (replicate 200 c) 10 i"
    by (auto intro!: local_min_const simp del: upt_rec_numeral)
  then show "filter (is_local_min (replicate 200 c) 10) [10..<190] = [10..<190]"
    by (simp only: filter_True)
  have "\<forall>i \<in> set [10..<190]. replicate 200 c ! i = c"
    by (simp del: upt_rec_numeral)
  then have "map (\<lambda>i. replicate 200 c ! i) [10..<190] = replicate (length [10..<190]) c"
    by (rule map_all_same)
  moreover have "length [10..<190] = (180::nat)" by (simp del: upt_rec_numeral)
  ultimately show "map (\<lambda>i. replicate 200 c ! i) [10..<190] = replicate 180 c"
    by (simp only:)
qed

lemma peaks_of_constant_highs:
  "filter (is_local_max (replicate 200 c) 10) [10..<190] = [10..<190]"
proof -
  have "\<forall>i \<in> set [10..<190]. is_local_max (replicate 200 c) 10 i"
    by (auto intro!: local_max_const simp del: upt_rec_numeral)
  then show ?thesis by (simp only: filter_True)
qed

lemma range_levels:
  "identify_support_resistance (Some range_bars) 10 =
     Some (replicate 180 1000, replicate 180 2000)"
  by (simp add: identify_support_resistance_def range_bars_def Let_def
      levels_of_constant_lows peaks_of_constant_highs del: upt_rec_numeral)

lemma drift_columns:
  "map Low drift_bars = replicate 200 1000"
  "map High drift_bars = map (\<lambda>k. 2000 + real k) [0..<200]"
  "length drift_bars = 200"
  "drift_bars \<noteq> []"
  "Close (last drift_bars) = 1500"
proof -
  have "map Low drift_bars = map (\<lambda>k. 1000) [0..<200]"
    by (simp add: drift_bars_def comp_def del: upt_rec_numeral)
  also have "\<dots> = replicate (length [0..<200]) 1000" by (rule map_all_same) simp
  also have "length [0..<200] = (200::nat)" by (simp del: upt_rec_numeral)
  finally show "map Low drift_bars = replicate 200 1000" .
  show "map High drift_bars = map (\<lambda>k. 2000 + real k) [0..<200]"
    by (simp add: drift_bars_def comp_def del: upt_rec_numeral)
  show len: "length drift_bars = 200" by (simp add: drift_bars_def del: upt_rec_numeral)
  then show ne: "drift_bars \<noteq> []" by auto
  have "last drift_bars = drift_bars ! 199"
    using ne len by (simp add: last_conv_nth)
  then show "Close (last drift_bars) = 1500"
    by (simp add: drift_bars_def del: upt_rec_numeral)
qed

lemma drift_no_peaks:
  "filter (is_local_max (map (\<lambda>k. 2000 + real k) [0..<200]) 10) [10..<190] = []"
proof -
  have "\<not> is_local_max (map (\<lambda>k. 2000 + real k) [0..<200]) 10 i" if "i < 190" for i
    by (rule local_max_rising) (use that in \<open>simp_all del: upt_rec_numeral\<close>)
  then show ?thesis by (auto simp: filter_empty_conv simp del: upt_rec_numeral)
qed

lemma drift_levels:
  "identify_support_resistance (Some drift_bars) 10 = Some (replicate 180 1000, [])"
  by (simp add: identify_support_resistance_def Let_def drift_columns
      levels_of_constant_lows drift_no_peaks del: upt_rec_numeral)

text \<open>
  C8. The claim is that the closest support is the largest support level strictly
  below the price whenever one exists, independently of the resistance levels. On 200
  bars with low 1000, close 1500 and strictly rising highs there are 180 support
  levels at 1000, all below the price 1500, and no resistance level: the summary
  carries no closest support.
\<close>

theorem closest_support_needs_resistance:
  "get_signal_summary (Some drift_bars) (generate_signals (Some drift_bars)) \<noteq> None \<and>
   identify_support_resistance (Some drift_bars) 10 = Some (replicate 180 1000, []) \<and>
   sm_price (the (get_signal_summary (Some drift_bars) (generate_signals (Some drift_bars)))) =
     1500 \<and>
   sm_levels (the (get_signal_summary (Some drift_bars) (generate_signals (Some drift_bars)))) =
     None"
proof -
  have "200 \<le> length drift_bars" by (simp add: drift_columns)
  from summary_of_signals [OF this] obtain s summ where
    a: "generate_signals (Some drift_bars) = Some s"
       "get_signal_summary (Some drift_bars) (Some s) = Some summ"
       "sm_price summ = Close (last drift_bars)"
    by blast
  from get_signal_summary_levels [OF a(2)] a(3)
  have "sm_levels summ = find_levels (Some drift_bars) 1500"
    by (simp add: drift_columns)
  also have "\<dots> = None" by (rule find_levels_empty [OF drift_levels]) simp
  finally show ?thesis using a drift_levels by (simp add: drift_columns)
qed

text \<open>
  C8, amended. In every summary that \<open>get_signal_summary\<close> returns: when both the
  list of support levels and the list of resistance levels are non-empty, the closest
  support is the largest support level strictly below the current price, absent when
  there is none, and the closest resistance is the smallest resistance level strictly
  above the price, absent when there is none; when the levels cannot be identified or
  either list is empty, both are absent.
\<close>

theorem closest_levels:
  assumes "get_signal_summary data sigs = Some summ"
  shows "(identify_support_resistance data 10 = None \<longrightarrow> sm_levels summ = None) \<and>
         (\<forall>sups ress. identify_support_resistance data 10 = Some (sups, ress) \<longrightarrow>
            (sups = [] \<or> ress = [] \<longrightarrow> sm_levels summ = None) \<and>
            (sups \<noteq> [] \<and> ress \<noteq> [] \<longrightarrow>
               (\<exists>lv. sm_levels summ = Some lv \<and>
                  closest_support lv =
                    (if \<exists>x \<in> set sups. x < sm_price summ
                     then Some (Max {x \<in> set sups. x < sm_price summ}) else None) \<and>
                  closest_resistance lv =
                    (if \<exists>x \<in> set ress. x > sm_price summ
                     then Some (Min {x \<in> set ress. x > sm_price summ}) else None))))"
proof -
  note lv = get_signal_summary_levels [OF assms]
  have a: "sm_levels summ = None" if "identify_support_resistance data 10 = None"
    using lv find_levels_None [OF that] by simp
  have b: "sm_levels summ = None"
    if "identify_support_resistance data 10 = Some (sups, ress)" "sups = [] \<or> ress = []"
    for sups ress
    using lv find_levels_empty [OF that] by simp
  have c: "\<exists>lv. sm_levels summ = Some lv \<and>
                  closest_support lv =
                    (if \<exists>x \<in> set sups. x < sm_price summ
                     then Some (Max {x \<in> set sups. x < sm_price summ}) else None) \<and>
                  closest_resistance lv =
                    (if \<exists>x \<in> set ress. x > sm_price summ
                     then Some (Min {x \<in> set ress. x > sm_price summ}) else None)"
    if "identify_support_resistance data 10 = Some (sups, ress)" "sups \<noteq> []" "ress \<noteq> []"
    for sups ress
    using find_levels_both [OF that, of "sm_price summ"] lv by simp
  from a b c show ?thesis by blast
qed

theorem closest_levels_witness:
  "\<exists>summ lv. get_signal_summary (Some range_bars) None = Some summ \<and>
     identify_support_resistance (Some range_bars) 10 =
       Some (replicate 180 1000, replicate 180 2000) \<and>
     sm_price summ = 1500 \<and> sm_levels summ = Some lv \<and>
     closest_support lv = Some 1000 \<and> closest_resistance lv = Some 2000"
proof -
  have "200 \<le> length range_bars" by (simp add: range_bars_def)
  from summary_of_signals [OF this] obtain summ where
    a: "get_signal_summary (Some range_bars) None = Some summ"
       "sm_price summ = Close (last range_bars)"
    by blast
  have p: "sm_price summ = 1500" using a(2) by (simp add: range_bars_def)
  have ne: "replicate 180 (1000::real) \<noteq> [] \<and> replicate 180 (2000::real) \<noteq> []" by simp
  from closest_levels [OF a(1)] range_levels ne obtain lv where
    lv: "sm_levels summ = Some lv"
        "closest_support lv =
           (if \<exists>x \<in> set (replicate 180 1000). x < sm_price summ
            then Some (Max {x \<in> set (replicate 180 1000). x < sm_price summ}) else None)"
        "closest_resistance lv =
           (if \<exists>x \<in> set (replicate 180 2000). x > sm_price summ
            then Some (Min {x \<in> set (replicate 180 2000). x > sm_price summ}) else None)"
    by blast
  have s1: "{x \<in> set (replicate 180 (1000::real)). x < 1500} = {1000}" by auto
  have s2: "{x \<in> set (replicate 180 (2000::real)). x > 1500} = {2000}" by auto
  from lv(2) p s1 have "closest_support lv = Some 1000" by simp
  moreover from lv(3) p s2 have "closest_resistance lv = Some 2000" by simp
  ultimately show ?thesis using a(1) range_levels p lv(1) by blast
qed

section \<open>Technical signal transitions\<close>

lemma jump_closes: "map Close (jump_bars x) = replicate 199 1900 @ [x]"
  by (simp add: jump_bars_def flat_bar_def)

lemma jump_len: "length (jump_bars x) = 200"
  by (simp add: jump_bars_def)

lemma ewm_from_flat:
  "ewm_from a c (replicate k c @ [x]) = replicate k c @ [a * x + (1 - a) * c]"
proof (induction k)
  case 0
  then show ?case by simp
next
  case (Suc k)
  have "a * c + (1 - a) * c = c" by (simp add: algebra_simps)
  with Suc show ?case by simp
qed

lemma ewm_mean_flat:
  "ewm_mean n (replicate (Suc k) c @ [x]) =
     replicate (Suc k) c @ [2 / (real n + 1) * x + (1 - 2 / (real n + 1)) * c]"
  by (simp add: ewm_mean_def ewm_from_flat)

lemma macd_jump:
  "macd_values 12 26 9 (replicate 199 1900 @ [x]) =
     (replicate 199 0 @ [28 / 351 * (x - 1900)],
      replicate 199 0 @ [28 / 1755 * (x - 1900)],
      replicate 199 0 @ [112 / 1755 * (x - 1900)])"
proof -
  have r: "replicate 199 c = replicate (Suc 198) c" for c :: real by simp
  have f: "ewm_mean 12 (replicate 199 1900 @ [x]) = replicate 199 1900 @ [2 / 13 * x + 11 / 13 * 1900]"
    unfolding r ewm_mean_flat by simp
  have s: "ewm_mean 26 (replicate 199 1900 @ [x]) = replicate 199 1900 @ [2 / 27 * x + 25 / 27 * 1900]"
    unfolding r ewm_mean_flat by simp
  have m: "map2 (-) (replicate 199 1900 @ [2 / 13 * x + 11 / 13 * 1900])
                    (replicate 199 1900 @ [2 / 27 * x + 25 / 27 * 1900]) =
           replicate 199 0 @ [28 / 351 * (x - 1900)]"
  proof -
    have "2 / 13 * x + 11 / 13 * 1900 - (2 / 27 * x + 25 / 27 * 1900) = 28 / 351 * (x - 1900)"
      by argo
    then show ?thesis by simp
  qed
  have g: "ewm_mean 9 (replicate 199 0 @ [28 / 351 * (x - 1900)]) =
           replicate 199 0 @ [28 / 1755 * (x - 1900)]"
  proof -
    have "2 / (real 9 + 1) * (28 / 351 * (x - 1900)) + (1 - 2 / (real 9 + 1)) * 0 =
          28 / 1755 * (x - 1900)"
      by simp
    then show ?thesis unfolding r ewm_mean_flat by simp
  qed
  have h: "map2 (-) (replicate 199 0 @ [28 / 351 * (x - 1900)])
                    (replicate 199 0 @ [28 / 1755 * (x - 1900)]) =
           replicate 199 0 @ [112 / 1755 * (x - 1900)]"
  proof -
    have "28 / 351 * (x - 1900) - 28 / 1755 * (x - 1900) = 112 / 1755 * (x - 1900)"
      by argo
    then show ?thesis by simp
  qed
  show ?thesis
    unfolding macd_values_def Let_def f s m g h by simp
qed

lemma ma_jump:
  "ma_col 20 (jump_bars x) ! 199 = Fin ((19 * 1900 + x) / 20)"
  "ma_col 50 (jump_bars x) ! 199 = Fin ((49 * 1900 + x) / 50)"
  by (simp_all add: ma_col_def nth_rolling_mean jump_closes window_mean_def list_all_iff
      sum_list_replicate comp_def)


lemma diff_flat:
  "diff (replicate (Suc n) c @ [x]) = NaN # replicate n (Fin 0) @ [Fin (x - c)]"
proof -
  have "zip (replicate n c @ [x]) (c # replicate n c @ [x]) =
        zip (replicate n c @ [x]) ((replicate n c @ [c]) @ [x])"
    by (simp add: replicate_append_same)
  also have "\<dots> = replicate n (c, c) @ [(x, c)]"
    by (simp add: zip_append1)
  finally show ?thesis by (simp add: diff_def)
qed

lemma gain_loss_jump:
  "rsi_gain (replicate 199 1900 @ [x]) =
     Fin 0 # replicate 198 (Fin 0) @ [if 1900 < x then Fin (x - 1900) else Fin 0]"
  "rsi_loss (replicate 199 1900 @ [x]) =
     Fin 0 # replicate 198 (Fin 0) @ [if x < 1900 then Fin (1900 - x) else Fin 0]"
proof -
  have r: "replicate 199 (1900::real) = replicate (Suc 198) 1900" by simp
  show "rsi_gain (replicate 199 1900 @ [x]) =
     Fin 0 # replicate 198 (Fin 0) @ [if 1900 < x then Fin (x - 1900) else Fin 0]"
    unfolding r rsi_gain_def diff_flat by (simp add: where_else_def)
  show "rsi_loss (replicate 199 1900 @ [x]) =
     Fin 0 # replicate 198 (Fin 0) @ [if x < 1900 then Fin (1900 - x) else Fin 0]"
    unfolding r rsi_loss_def diff_flat by (simp add: where_else_def)
qed

lemma avg_jump:
  "rsi_avg_gain 14 (replicate 199 1900 @ [x]) ! 199 =
     Fin ((if 1900 < x then x - 1900 else 0) / 14)"
  "rsi_avg_loss 14 (replicate 199 1900 @ [x]) ! 199 =
     Fin ((if x < 1900 then 1900 - x else 0) / 14)"
  by (simp_all add: rsi_avg_gain_def rsi_avg_loss_def nth_rolling_mean gain_loss_jump
      window_mean_def list_all_iff sum_list_replicate)

lemma rsi_jump:
  "rsi_values 14 (map Close (jump_bars 1901)) ! 199 = Fin 100"
  "rsi_values 14 (map Close (jump_bars 1899)) ! 199 = Fin 0"
  "rsi_values 14 (map Close (jump_bars 1900)) ! 199 = NaN"
  by (simp_all add: jump_closes nth_rsi_values avg_jump rsi_of_rs_def fl_sub_def)

lemma observed_jump:
  "observed_signal_type (Some (jump_bars x)) =
     Some (classify_signal
       (real_of_int (rsi_vote (rsi_values 14 (map Close (jump_bars x)) ! 199) +
                     macd_vote (28 / 351 * (x - 1900)) (28 / 1755 * (x - 1900)) +
                     ma_vote (Fin ((19 * 1900 + x) / 20)) (Fin ((49 * 1900 + x) / 50))) / 3))"
proof -
  have a: "200 \<le> length (jump_bars x)" and b: "199 < length (jump_bars x)"
    by (simp_all add: jump_len)
  from summary_of_signals [OF a] obtain s summ where
    s: "generate_signals (Some (jump_bars x)) = Some s"
       "get_signal_summary (Some (jump_bars x)) (Some s) = Some summ"
       "\<not> signals_empty s" "length (sg_Signal s) = length (jump_bars x)"
       "sm_signal_type summ = classify_signal (last (sg_Signal s))"
    by blast
  from signals_row [OF a b] s(1) obtain mc where
    r: "sg_RSI s = rsi_values 14 (map Close (jump_bars x))"
       "sg_MACD s = fst (macd_values 12 26 9 (map Close (jump_bars x)))"
       "sg_MACD_Signal s = fst (snd (macd_values 12 26 9 (map Close (jump_bars x))))"
       "sg_Signal s ! 199 =
          real_of_int (sg_RSI_Signal s ! 199 + sg_MACD_Cross_Signal s ! 199 + mc ! 199) / 3"
       "sg_RSI_Signal s ! 199 = rsi_vote (sg_RSI s ! 199)"
       "sg_MACD_Cross_Signal s ! 199 = macd_vote (sg_MACD s ! 199) (sg_MACD_Signal s ! 199)"
       "mc ! 199 = ma_vote (ma_col 20 (jump_bars x) ! 199) (ma_col 50 (jump_bars x) ! 199)"
    by auto
  have l: "last (sg_Signal s) = sg_Signal s ! 199"
    using s(4) by (simp add: last_conv_nth jump_len flip: length_0_conv)
  have m: "sg_MACD s ! 199 = 28 / 351 * (x - 1900)"
          "sg_MACD_Signal s ! 199 = 28 / 1755 * (x - 1900)"
    using r(2,3) by (simp_all add: jump_closes macd_jump nth_append)
  have "sg_Signal s ! 199 =
      real_of_int (rsi_vote (rsi_values 14 (map Close (jump_bars x)) ! 199) +
                     macd_vote (28 / 351 * (x - 1900)) (28 / 1755 * (x - 1900)) +
                     ma_vote (Fin ((19 * 1900 + x) / 20)) (Fin ((49 * 1900 + x) / 50))) / 3"
    unfolding r(4) r(5) r(6) r(7) m ma_jump r(1) ..
  with s l show ?thesis by (simp add: observed_signal_type_def)
qed

lemma jump_types:
  "observed_signal_type (Some (jump_bars 1901)) = Some BUY"
  "observed_signal_type (Some (jump_bars 1899)) = Some SELL"
  "observed_signal_type (Some (jump_bars 1900)) = Some NEUTRAL"
  by (simp_all add: observed_jump rsi_jump rsi_vote_def macd_vote_def ma_vote_def
      classify_signal_def)


lemma signal_transition_step:
  "\<exists>ev. signal_transition ns summ = (ev, ns\<lparr>last_signal := Some (sm_signal_type summ)\<rparr>) \<and>
        (ev \<noteq> None \<longleftrightarrow>
           (\<exists>prev. last_signal ns = Some prev \<and> sm_signal_type summ \<noteq> prev \<and>
                   sm_signal_type summ \<noteq> NEUTRAL)) \<and>
        (\<forall>n. ev = Some n \<longrightarrow> n_type n = SIGNAL \<and> n_data n = SignalData summ)"
  by (cases "last_signal ns") (auto simp: signal_transition_def Let_def)

lemma check_technical_signals_step:
  assumes "observed_signal_type ta = Some t"
  shows "\<exists>ev. check_technical_signals ns ta = (ev, ns\<lparr>last_signal := Some t\<rparr>) \<and>
        (ev \<noteq> None \<longleftrightarrow> (\<exists>prev. last_signal ns = Some prev \<and> t \<noteq> prev \<and> t \<noteq> NEUTRAL)) \<and>
        (\<forall>n. ev = Some n \<longrightarrow> n_type n = SIGNAL)"
proof -
  from assms obtain sigs summ where
    g: "generate_signals ta = Some sigs" "\<not> signals_empty sigs"
       "get_signal_summary ta (Some sigs) = Some summ" "sm_signal_type summ = t"
    by (auto simp: observed_signal_type_def split: option.splits if_splits)
  then have "check_technical_signals ns ta = signal_transition ns summ"
    by (simp add: check_technical_signals_def)
  with signal_transition_step [of ns summ] g(4) show ?thesis by auto
qed

text \<open>
  C6. A call of \<open>check_technical_signals\<close> that obtains a summary of signal type t
  sets \<open>last_signal\<close> to t in every case. On the first call (no stored type) it
  returns no event; on a later call, with stored type prev, it returns an event, of
  type SIGNAL, exactly when t differs from prev and t is not NEUTRAL. On five calls
  observing BUY, BUY, SELL, NEUTRAL, SELL, starting unseeded, events are returned at
  the third and the fifth call only, and the stored type ends as SELL.
\<close>

theorem check_technical_signals_transitions:
  "(observed_signal_type ta = Some t \<longrightarrow>
      (\<exists>ev. check_technical_signals ns ta = (ev, ns\<lparr>last_signal := Some t\<rparr>) \<and>
            (last_signal ns = None \<longrightarrow> ev = None) \<and>
            (\<forall>prev. last_signal ns = Some prev \<longrightarrow>
                 (ev \<noteq> None \<longleftrightarrow> t \<noteq> prev \<and> t \<noteq> NEUTRAL)) \<and>
            (\<forall>n. ev = Some n \<longrightarrow> n_type n = SIGNAL))) \<and>
   (last_signal ns = None \<and>
    map observed_signal_type tas = [Some BUY, Some BUY, Some SELL, Some NEUTRAL, Some SELL] \<longrightarrow>
      map (\<lambda>ev. ev \<noteq> None) (fst (run_checks check_technical_signals ns tas)) =
        [False, False, True, False, True] \<and>
      last_signal (snd (run_checks check_technical_signals ns tas)) = Some SELL)"
proof (intro conjI impI)
  assume "observed_signal_type ta = Some t"
  from check_technical_signals_step [OF this, of ns]
  show "\<exists>ev. check_technical_signals ns ta = (ev, ns\<lparr>last_signal := Some t\<rparr>) \<and>
            (last_signal ns = None \<longrightarrow> ev = None) \<and>
            (\<forall>prev. last_signal ns = Some prev \<longrightarrow>
                 (ev \<noteq> None \<longleftrightarrow> t \<noteq> prev \<and> t \<noteq> NEUTRAL)) \<and>
            (\<forall>n. ev = Some n \<longrightarrow> n_type n = SIGNAL)"
    by auto
next
  assume a: "last_signal ns = None \<and>
    map observed_signal_type tas = [Some BUY, Some BUY, Some SELL, Some NEUTRAL, Some SELL]"
  then obtain t1 t2 t3 t4 t5 where tas: "tas = [t1, t2, t3, t4, t5]"
    and o: "observed_signal_type t1 = Some BUY" "observed_signal_type t2 = Some BUY"
      "observed_signal_type t3 = Some SELL" "observed_signal_type t4 = Some NEUTRAL"
      "observed_signal_type t5 = Some SELL"
    by (auto simp: map_eq_Cons_conv)
  let ?n1 = "ns\<lparr>last_signal := Some BUY\<rparr>"
  let ?n2 = "?n1\<lparr>last_signal := Some BUY\<rparr>"
  let ?n3 = "?n2\<lparr>last_signal := Some SELL\<rparr>"
  let ?n4 = "?n3\<lparr>last_signal := Some NEUTRAL\<rparr>"
  let ?n5 = "?n4\<lparr>last_signal := Some SELL\<rparr>"
  from check_technical_signals_step [OF o(1), of ns] a obtain e1 where
    s1: "check_technical_signals ns t1 = (e1, ?n1)" "e1 = None" by auto
  from check_technical_signals_step [OF o(2), of ?n1] obtain e2 where
    s2: "check_technical_signals ?n1 t2 = (e2, ?n2)" "e2 = None" by auto
  from check_technical_signals_step [OF o(3), of ?n2] obtain e3 where
    s3: "check_technical_signals ?n2 t3 = (e3, ?n3)" "e3 \<noteq> None" by auto
  from check_technical_signals_step [OF o(4), of ?n3] obtain e4 where
    s4: "check_technical_signals ?n3 t4 = (e4, ?n4)" "e4 = None" by auto
  from check_technical_signals_step [OF o(5), of ?n4] obtain e5 where
    s5: "check_technical_signals ?n4 t5 = (e5, ?n5)" "e5 \<noteq> None" by auto
  have run: "run_checks check_technical_signals ns tas = ([e1, e2, e3, e4, e5], ?n5)"
    unfolding tas using s1(1) s2(1) s3(1) s4(1) s5(1) by simp
  show "map (\<lambda>ev. ev \<noteq> None) (fst (run_checks check_technical_signals ns tas)) =
        [False, False, True, False, True]"
    unfolding run using s1(2) s2(2) s3(2) s4(2) s5(2) by simp
  show "last_signal (snd (run_checks check_technical_signals ns tas)) = Some SELL"
    unfolding run by simp
qed

theorem check_technical_signals_transitions_witness:
  "observed_signal_type (Some (jump_bars 1899)) = Some SELL \<and>
   last_signal (ns0\<lparr>last_signal := Some BUY\<rparr>) = Some BUY \<and>
   (\<exists>ev. check_technical_signals (ns0\<lparr>last_signal := Some BUY\<rparr>) (Some (jump_bars 1899)) =
           (ev, ns0\<lparr>last_signal := Some SELL\<rparr>) \<and> ev \<noteq> None) \<and>
   last_signal ns0 = None \<and>
   map observed_signal_type
     [Some (jump_bars 1901), Some (jump_bars 1901), Some (jump_bars 1899),
      Some (jump_bars 1900), Some (jump_bars 1899)] =
     [Some BUY, Some BUY, Some SELL, Some NEUTRAL, Some SELL] \<and>
   map (\<lambda>ev. ev \<noteq> None)
     (fst (run_checks check_technical_signals ns0
        [Some (jump_bars 1901), Some (jump_bars 1901), Some (jump_bars 1899),
         Some (jump_bars 1900), Some (jump_bars 1899)])) =
     [False, False, True, False, True] \<and>
   last_signal (snd (run_checks check_technical_signals ns0
        [Some (jump_bars 1901), Some (jump_bars 1901), Some (jump_bars 1899),
         Some (jump_bars 1900), Some (jump_bars 1899)])) = Some SELL"
proof -
  have types: "map observed_signal_type
     [Some (jump_bars 1901), Some (jump_bars 1901), Some (jump_bars 1899),
      Some (jump_bars 1900), Some (jump_bars 1899)] =
     [Some BUY, Some BUY, Some SELL, Some NEUTRAL, Some SELL]"
    by (simp add: jump_types)
  have first: "last_signal ns0 = None" by (simp add: ns0_simps)
  have prev: "last_signal (ns0\<lparr>last_signal := Some BUY\<rparr>) = Some BUY" by simp
  note thm1 = check_technical_signals_transitions
      [of "Some (jump_bars 1899)" SELL "ns0\<lparr>last_signal := Some BUY\<rparr>" "[]"]
  note thm2 = check_technical_signals_transitions
      [of None BUY ns0
          "[Some (jump_bars 1901), Some (jump_bars 1901), Some (jump_bars 1899),
            Some (jump_bars 1900), Some (jump_bars 1899)]"]
  from thm1 jump_types(2) prev
  have a: "\<exists>ev. check_technical_signals (ns0\<lparr>last_signal := Some BUY\<rparr>) (Some (jump_bars 1899)) =
           (ev, ns0\<lparr>last_signal := Some SELL\<rparr>) \<and> ev \<noteq> None"
    by auto
  from thm2 types first
  have b: "map (\<lambda>ev. ev \<noteq> None)
     (fst (run_checks check_technical_signals ns0
        [Some (jump_bars 1901), Some (jump_bars 1901), Some (jump_bars 1899),
         Some (jump_bars 1900), Some (jump_bars 1899)])) =
     [False, False, True, False, True] \<and>
   last_signal (snd (run_checks check_technical_signals ns0
        [Some (jump_bars 1901), Some (jump_bars 1901), Some (jump_bars 1899),
         Some (jump_bars 1900), Some (jump_bars 1899)])) = Some SELL"
    by blast
  from a b types first prev jump_types(2) show ?thesis by blast
qed

end
